theory Spec2Isabelle
  imports Complex_Main "HOL-Library.Multiset"
begin

section \<open>Python values, strings and exceptions\<close>

text \<open>
  Strings are byte strings (\<open>char list\<close>); the case mapping and the whitespace test are
  the ASCII parts of Python's \<open>str.lower\<close> and \<open>str.isspace\<close>. Logging calls have no
  effect that any function below can observe and are left out. Floats are modelled as
  real numbers (for the retrieval scores and their rounding, see there). The messages of exceptions are written without their quotation marks.
\<close>

datatype py_error =
    ValueError string
  | TypeError string
  | AttributeError string
  | ZeroDivisionError string
  | RuntimeError string
  | IndexError string

fun exc_str :: "py_error \<Rightarrow> string" where
  "exc_str (ValueError m) = m"
| "exc_str (TypeError m) = m"
| "exc_str (AttributeError m) = m"
| "exc_str (ZeroDivisionError m) = m"
| "exc_str (RuntimeError m) = m"
| "exc_str (IndexError m) = m"

datatype jval =
    JNull
  | JBool bool
  | JInt int
  | JFloat real
  | JStr string
  | JList "jval list"
  | JDict "(string \<times> jval) list"

type_synonym pydict = "(string \<times> jval) list"

definition dict_get :: "pydict \<Rightarrow> string \<Rightarrow> jval \<Rightarrow> jval" where
  "dict_get d k dflt = (case map_of d k of None \<Rightarrow> dflt | Some v \<Rightarrow> v)"

definition dict_set :: "pydict \<Rightarrow> string \<Rightarrow> jval \<Rightarrow> pydict" where
  "dict_set d k v =
     (if k \<in> fst ` set d then map (\<lambda>(k', v'). if k' = k then (k', v) else (k', v')) d
      else d @ [(k, v)])"

fun truthy :: "jval \<Rightarrow> bool" where
  "truthy JNull = False"
| "truthy (JBool b) = b"
| "truthy (JInt i) = (i \<noteq> 0)"
| "truthy (JFloat x) = (x \<noteq> 0)"
| "truthy (JStr s) = (s \<noteq> [])"
| "truthy (JList xs) = (xs \<noteq> [])"
| "truthy (JDict kvs) = (kvs \<noteq> [])"

definition py_or :: "jval \<Rightarrow> jval \<Rightarrow> jval" where
  "py_or a b = (if truthy a then a else b)"

fun hashable :: "jval \<Rightarrow> bool" where
  "hashable (JList xs) = False"
| "hashable (JDict kvs) = False"
| "hashable v = True"

fun py_type_name :: "jval \<Rightarrow> string" where
  "py_type_name JNull = ''NoneType''"
| "py_type_name (JBool b) = ''bool''"
| "py_type_name (JInt i) = ''int''"
| "py_type_name (JFloat x) = ''float''"
| "py_type_name (JStr s) = ''str''"
| "py_type_name (JList xs) = ''list''"
| "py_type_name (JDict kvs) = ''dict''"

fun py_num :: "jval \<Rightarrow> real option" where
  "py_num (JBool b) = Some (if b then 1 else 0)"
| "py_num (JInt i) = Some (real_of_int i)"
| "py_num (JFloat x) = Some x"
| "py_num v = None"

definition py_ge_float :: "jval \<Rightarrow> real \<Rightarrow> py_error + bool" where
  "py_ge_float v r =
     (case py_num v of
        Some x \<Rightarrow> Inr (r \<le> x)
      | None \<Rightarrow> Inl (TypeError (''>= not supported between instances of ''
            @ py_type_name v @ '' and float'')))"

definition whitespace :: "char list" where
  "whitespace = [CHR 0x09, CHR 0x0A, CHR 0x0B, CHR 0x0C, CHR 0x0D,
                 CHR 0x1C, CHR 0x1D, CHR 0x1E, CHR 0x1F, CHR '' '']"

definition is_space :: "char \<Rightarrow> bool" where
  "is_space c = (c \<in> set whitespace)"

definition lower_char :: "char \<Rightarrow> char" where
  "lower_char c =
     (case map_of (zip ''ABCDEFGHIJKLMNOPQRSTUVWXYZ'' ''abcdefghijklmnopqrstuvwxyz'') c of
        Some d \<Rightarrow> d
      | None \<Rightarrow> c)"

definition py_lower :: "string \<Rightarrow> string" where
  "py_lower s = map lower_char s"

definition py_strip :: "string \<Rightarrow> string" where
  "py_strip s = rev (dropWhile is_space (rev (dropWhile is_space s)))"

fun split_from :: "string \<Rightarrow> string \<Rightarrow> string list" where
  "split_from cur [] = (if cur = [] then [] else [cur])"
| "split_from cur (c # cs) =
     (if is_space c then (if cur = [] then split_from [] cs else cur # split_from [] cs)
      else split_from (cur @ [c]) cs)"

definition py_split :: "string \<Rightarrow> string list" where
  "py_split s = split_from [] s"

fun starts_with :: "string \<Rightarrow> string \<Rightarrow> bool" where
  "starts_with [] s = True"
| "starts_with (p # ps) [] = False"
| "starts_with (p # ps) (c # cs) = (p = c \<and> starts_with ps cs)"

fun py_in :: "string \<Rightarrow> string \<Rightarrow> bool" where
  "py_in sub [] = (sub = [])"
| "py_in sub (c # cs) = (starts_with sub (c # cs) \<or> py_in sub cs)"

definition digit_char :: "nat \<Rightarrow> char" where
  "digit_char d = ''0123456789'' ! d"

function str_nat :: "nat \<Rightarrow> string" where
  "str_nat n = (if n < 10 then [digit_char n] else str_nat (n div 10) @ [digit_char (n mod 10)])"
  by pat_completeness auto
termination
  by (relation "measure id") auto

declare str_nat.simps [simp del]

section \<open>The planner: depth determination\<close>

text \<open>\<open>PlannerAgent._determine_depth\<close> (planner.py). The depth dictionary is a record.\<close>

record depth_cfg =
  steps :: nat
  level :: string
  reflection_prompts :: nat

definition complexity_triggers :: "string list" where
  "complexity_triggers = [''roadmap'', ''launch'', ''strategy'', ''architecture'',
                          ''curriculum'', ''campaign'', ''research'', ''bootcamp'']"

definition complex_goal :: "string \<Rightarrow> bool" where
  "complex_goal goal =
     (40 < length (py_split goal)
      \<or> list_ex (\<lambda>word. py_in word (py_lower goal)) complexity_triggers)"

definition determine_depth :: "pydict \<Rightarrow> string \<Rightarrow> py_error + depth_cfg" where
  "determine_depth intent_payload goal =
     (let complex = complex_goal goal;
          base_steps = (if complex then 6 else 4 :: nat);
          level0 = (if complex then ''deep'' else ''standard'');
          confidence = dict_get intent_payload ''confidence'' (JInt 0)
      in case py_ge_float confidence (85 / 100) of
           Inl e \<Rightarrow> Inl e
         | Inr high \<Rightarrow>
             (let base_steps' = (if high then min (base_steps + 1) 8 else base_steps);
                  level' = (if high \<and> level0 = ''standard'' then ''comprehensive'' else level0)
              in Inr \<lparr> steps = base_steps',
                       level = level',
                       reflection_prompts = (if level' \<noteq> ''standard'' then 2 else 1) \<rparr>))"


section \<open>Stored values, audit trail and memory bank\<close>

text \<open>
  The values that the components below put into the key-value store: calendar event
  lists, planner checkpoints and session footprints. The store keeps them as JSON text;
  the model keeps the value itself.
\<close>

record event =
  ev_title :: string
  ev_date :: string
  ev_time :: jval
  ev_source :: string

record doc_hit =
  hit_title :: string
  hit_path :: string
  hit_excerpt :: string

record curated_result =
  cr_title :: string
  cr_url :: string
  cr_summary :: string
  cr_tags :: "string list"

datatype tool_output =
    OutEmpty
  | OutEvents "event list"
  | OutCreated event
  | OutDocHits "doc_hit list"
  | OutWebHits "curated_result list"
  | OutOther jval

record tool_result =
  res_name :: string
  res_success :: bool
  res_output :: tool_output
  res_diagnostics :: pydict

record plan_step =
  st_step :: nat
  st_action :: string
  st_success :: string
  st_status :: string

record log_entry =
  log_step :: nat
  log_action :: string
  log_result :: string
  log_status :: string

record tool_entry =
  te_step :: nat
  te_tool :: string
  te_success :: bool
  te_output :: tool_output
  te_diagnostics :: pydict

record timeline_entry =
  tl_stage :: string
  tl_summary :: string
  tl_timestamp :: real

record plan_state =
  plan_id :: string
  plan_user_id :: string
  plan_session_id :: string
  plan_goal :: string
  plan_depth :: depth_cfg
  plan_steps :: "plan_step list"
  plan_execution_log :: "log_entry list"
  plan_tool_calls :: "tool_entry list"
  plan_reflection :: string
  plan_timeline :: "timeline_entry list"
  plan_done :: bool
  plan_timestamp :: real

record session_footprint =
  sf_user_id :: string
  sf_intent :: pydict

datatype kv_value =
    VEvents "event list"
  | VPlan plan_state
  | VSession session_footprint

fun value_truthy :: "kv_value \<Rightarrow> bool" where
  "value_truthy (VEvents es) = (es \<noteq> [])"
| "value_truthy (VPlan p) = True"
| "value_truthy (VSession s) = True"

record audit_event =
  ae_id :: nat
  ae_event_type :: string
  ae_trace_id :: string
  ae_severity :: string
  ae_payload :: pydict
  ae_timestamp :: real
  ae_status :: string
  ae_notes :: "jval list"

text \<open>
  The state shared by all components: the table \<open>kv\<close> of the MemoryBank, the global
  \<open>audit_trail\<close> (a deque of at most 500 events, newest first), the wall clock read by
  \<open>time.time()\<close> and a supply for \<open>uuid.uuid4()\<close>.
\<close>

record world =
  kv :: "string \<times> string \<rightharpoonup> kv_value"
  kv_updated_at :: "string \<times> string \<rightharpoonup> real"
  audit_events :: "audit_event list"
  audit_next_id :: nat
  clock :: real
  uuid_supply :: nat

text \<open>
  What the model takes from the platform as parameters: \<open>str()\<close> of values that are not
  strings, booleans, integers or None, \<open>str()\<close> of a stored value,
  \<open>datetime.fromisoformat\<close> followed by \<open>isoformat\<close> (None when parsing raises) and the
  ISO text of the clock plus one day.
\<close>

record platform =
  repr_other :: "jval \<Rightarrow> string"
  repr_value :: "kv_value \<Rightarrow> string"
  fromisoformat :: "string \<Rightarrow> string option"
  iso_tomorrow :: "real \<Rightarrow> string"

definition str_int :: "int \<Rightarrow> string" where
  "str_int i = (if i < 0 then CHR ''-'' # str_nat (nat (- i)) else str_nat (nat i))"

fun py_str :: "platform \<Rightarrow> jval \<Rightarrow> string" where
  "py_str pf (JStr s) = s"
| "py_str pf JNull = ''None''"
| "py_str pf (JBool b) = (if b then ''True'' else ''False'')"
| "py_str pf (JInt i) = str_int i"
| "py_str pf v = repr_other pf v"

definition trace_or_unknown :: "string option \<Rightarrow> string" where
  "trace_or_unknown trace_id =
     (case trace_id of None \<Rightarrow> ''unknown'' | Some t \<Rightarrow> if t = [] then ''unknown'' else t)"

definition audit_record :: "string \<Rightarrow> string option \<Rightarrow> string \<Rightarrow> pydict \<Rightarrow> world \<Rightarrow> world" where
  "audit_record event_type trace_id severity payload w =
     (let ev = \<lparr> ae_id = audit_next_id w,
                  ae_event_type = event_type,
                  ae_trace_id = trace_or_unknown trace_id,
                  ae_severity = severity,
                  ae_payload = payload,
                  ae_timestamp = clock w,
                  ae_status = ''open'',
                  ae_notes = [] \<rparr>
      in w \<lparr> audit_events := take 500 (ev # audit_events w),
             audit_next_id := audit_next_id w + 1 \<rparr>)"

definition memory_set :: "platform \<Rightarrow> string \<Rightarrow> string \<Rightarrow> kv_value \<Rightarrow> string option \<Rightarrow> world \<Rightarrow> world" where
  "memory_set pf namespace key v trace_id w =
     audit_record ''memory_write'' trace_id ''info''
       [(''namespace'', JStr namespace), (''key'', JStr key),
        (''value_preview'', JStr (take 120 (repr_value pf v)))]
       (w \<lparr> kv := (kv w)((namespace, key) \<mapsto> v),
            kv_updated_at := (kv_updated_at w)((namespace, key) \<mapsto> clock w) \<rparr>)"

definition memory_get :: "string \<Rightarrow> string \<Rightarrow> kv_value option \<Rightarrow> world \<Rightarrow> kv_value option" where
  "memory_get namespace key dflt w =
     (case kv w (namespace, key) of None \<Rightarrow> dflt | Some v \<Rightarrow> Some v)"

definition uuid4 :: "world \<Rightarrow> string \<times> world" where
  "uuid4 w = (''uuid-'' @ str_nat (uuid_supply w), w \<lparr> uuid_supply := uuid_supply w + 1 \<rparr>)"

section \<open>Tools and the tool registry\<close>

record tool_request =
  req_name :: string
  req_arguments :: pydict
  req_user_id :: string
  req_session_id :: string
  req_trace_id :: string

text \<open>
  A tool is its name, its guardrail predicate and its \<open>invoke\<close> method. Both methods can
  raise; \<open>invoke\<close> also returns the world it leaves behind.
\<close>

record tool =
  tool_name :: string
  tool_is_allowed :: "tool_request \<Rightarrow> py_error + bool"
  tool_invoke :: "tool_request \<Rightarrow> world \<Rightarrow> (py_error + tool_result) \<times> world"

type_synonym tool_registry = "string \<rightharpoonup> tool"

definition register :: "tool \<Rightarrow> tool_registry \<Rightarrow> tool_registry" where
  "register t tools = tools(tool_name t \<mapsto> t)"

definition base_is_allowed :: "nat \<Rightarrow> tool_request \<Rightarrow> bool" where
  "base_is_allowed max_args request = (length (req_arguments request) \<le> max_args)"

definition tool_call_payload :: "string \<Rightarrow> string \<Rightarrow> string \<Rightarrow> pydict \<Rightarrow> pydict \<Rightarrow> pydict" where
  "tool_call_payload name user_id session_id arguments rest =
     [(''tool'', JStr name), (''user_id'', JStr user_id), (''session_id'', JStr session_id),
      (''arguments'', JDict arguments)] @ rest"

definition call ::
  "tool_registry \<Rightarrow> string \<Rightarrow> string \<Rightarrow> string \<Rightarrow> string \<Rightarrow> pydict option \<Rightarrow> world
     \<Rightarrow> (py_error + tool_result) \<times> world" where
  "call tools name user_id session_id trace_id arguments w =
     (case tools name of
        None \<Rightarrow> (Inl (ValueError (''Unknown tool: '' @ name)), w)
      | Some t \<Rightarrow>
          (let request = \<lparr> req_name = name,
                           req_arguments = (case arguments of None \<Rightarrow> [] | Some a \<Rightarrow> a),
                           req_user_id = user_id,
                           req_session_id = session_id,
                           req_trace_id = trace_id \<rparr>
           in case tool_is_allowed t request of
                Inl exc \<Rightarrow> (Inl exc, w)
              | Inr allowed \<Rightarrow>
                  if \<not> allowed then
                    (Inr \<lparr> res_name = name, res_success = False, res_output = OutEmpty,
                           res_diagnostics = [(''error'', JStr ''guardrail_violation'')] \<rparr>,
                     audit_record ''tool_call'' (Some trace_id) ''warn''
                       (tool_call_payload name user_id session_id (req_arguments request)
                          [(''result'', JStr ''guardrail_violation'')]) w)
                  else
                    (case tool_invoke t request w of
                       (Inr result, w') \<Rightarrow>
                         (Inr result,
                          audit_record ''tool_call'' (Some trace_id)
                            (if res_success result then ''info'' else ''warn'')
                            (tool_call_payload name user_id session_id (req_arguments request)
                               [(''success'', JBool (res_success result)),
                                (''diagnostics'', JDict (res_diagnostics result))]) w')
                     | (Inl exc, w') \<Rightarrow>
                         (Inr \<lparr> res_name = name, res_success = False, res_output = OutEmpty,
                                res_diagnostics = [(''error'', JStr (exc_str exc))] \<rparr>,
                          audit_record ''tool_call'' (Some trace_id) ''error''
                            (tool_call_payload name user_id session_id (req_arguments request)
                               [(''success'', JBool False),
                                (''diagnostics'', JDict [(''error'', JStr (exc_str exc))])]) w'))))"

subsection \<open>The calendar tool\<close>

definition allowed_actions :: "string list" where
  "allowed_actions = [''list_upcoming'', ''add_hold'']"

text \<open>Membership of a value in a set of strings: hashing a list or a dict raises.\<close>

definition in_str_set :: "jval \<Rightarrow> string list \<Rightarrow> py_error + bool" where
  "in_str_set v ss =
     (if \<not> hashable v then Inl (TypeError (''unhashable type: '' @ py_type_name v))
      else Inr (case v of JStr s \<Rightarrow> s \<in> set ss | _ \<Rightarrow> False))"

definition calendar_is_allowed :: "tool_request \<Rightarrow> py_error + bool" where
  "calendar_is_allowed request =
     (if \<not> base_is_allowed 6 request then Inr False
      else in_str_set (py_or (dict_get (req_arguments request) ''action'' JNull)
                             (JStr ''list_upcoming'')) allowed_actions)"

text \<open>
  \<open>self.memory.get(ns, user, []) or []\<close>, used as a list: a dictionary stored under the
  key makes the slice or the \<open>append\<close> that follows raise (for the slice, a TypeError
  before Python 3.12).
\<close>

definition events_of :: "tool_request \<Rightarrow> world \<Rightarrow> kv_value" where
  "events_of request w =
     (case memory_get ''events'' (req_user_id request) (Some (VEvents [])) w of
        None \<Rightarrow> VEvents []
      | Some v \<Rightarrow> if value_truthy v then v else VEvents [])"

definition list_upcoming :: "tool_request \<Rightarrow> world \<Rightarrow> (py_error + tool_result) \<times> world" where
  "list_upcoming request w =
     (case events_of request w of
        VEvents events \<Rightarrow>
          (let upcoming = rev (drop (length events - 3) events)
           in (Inr \<lparr> res_name = ''calendar.manage'', res_success = True,
                     res_output = OutEvents upcoming,
                     res_diagnostics = [(''count'', JInt (int (length upcoming)))] \<rparr>, w))
      | _ \<Rightarrow> (Inl (TypeError ''unhashable type: slice''), w))"

definition add_hold :: "platform \<Rightarrow> tool_request \<Rightarrow> world \<Rightarrow> (py_error + tool_result) \<times> world" where
  "add_hold pf request w =
     (let args = req_arguments request;
          title = take 80 (py_strip (py_str pf (py_or (dict_get args ''title'' JNull) (JStr ''Hold''))))
      in if title = [] then
           (Inr \<lparr> res_name = ''calendar.manage'', res_success = False, res_output = OutEmpty,
                  res_diagnostics = [(''error'', JStr ''missing_title'')] \<rparr>, w)
         else
           (let date = (case fromisoformat pf (py_str pf (dict_get args ''date'' JNull)) of
                          Some d \<Rightarrow> d
                        | None \<Rightarrow> iso_tomorrow pf (clock w));
                ev = \<lparr> ev_title = title, ev_date = date,
                       ev_time = dict_get args ''time'' (JStr ''09:00''),
                       ev_source = ''tool_bus'' \<rparr>
            in case events_of request w of
                 VEvents events \<Rightarrow>
                   (let events' = events @ [ev];
                        w' = memory_set pf ''events'' (req_user_id request) (VEvents events')
                               (Some (req_trace_id request)) w
                    in (Inr \<lparr> res_name = ''calendar.manage'', res_success = True,
                              res_output = OutCreated ev,
                              res_diagnostics = [(''total_events'', JInt (int (length events')))] \<rparr>,
                        w'))
               | _ \<Rightarrow> (Inl (AttributeError ''dict object has no attribute append''), w)))"

definition calendar_invoke :: "platform \<Rightarrow> tool_request \<Rightarrow> world \<Rightarrow> (py_error + tool_result) \<times> world" where
  "calendar_invoke pf request w =
     (let action = py_or (dict_get (req_arguments request) ''action'' JNull) (JStr ''list_upcoming'')
      in if action = JStr ''add_hold'' then add_hold pf request w else list_upcoming request w)"

definition CalendarTool :: "platform \<Rightarrow> tool" where
  "CalendarTool pf = \<lparr> tool_name = ''calendar.manage'',
                       tool_is_allowed = calendar_is_allowed,
                       tool_invoke = calendar_invoke pf \<rparr>"

subsection \<open>The document lookup tool\<close>

record doc_record =
  doc_path :: string
  doc_title :: string
  doc_content :: string

definition ellipsis :: string where
  "ellipsis = [CHR 0xC3, CHR 0xA2, CHR 0xE2, CHR 0x82, CHR 0xAC, CHR 0xC2, CHR 0xA6]"

text \<open>
  The loop over the first 25 indexed records; the pattern is the escaped query,
  searched ignoring case.
\<close>

fun docs_scan :: "string \<Rightarrow> doc_record list \<Rightarrow> doc_hit list \<Rightarrow> doc_hit list" where
  "docs_scan query [] hits = hits"
| "docs_scan query (r # rs) hits =
     (let hits' = (if py_in (py_lower query) (py_lower (doc_content r))
                   then hits @ [\<lparr> hit_title = doc_title r, hit_path = doc_path r,
                                  hit_excerpt = take 240 (doc_content r) @ ellipsis \<rparr>]
                   else hits)
      in if 3 \<le> length hits' then hits' else docs_scan query rs hits')"

definition docs_invoke :: "platform \<Rightarrow> doc_record list \<Rightarrow> tool_request \<Rightarrow> world \<Rightarrow> (py_error + tool_result) \<times> world" where
  "docs_invoke pf records request w =
     (let query = py_strip (py_str pf (py_or (dict_get (req_arguments request) ''query'' JNull) (JStr [])))
      in if query = [] \<or> 160 < length query then
           (Inr \<lparr> res_name = ''docs.lookup'', res_success = False, res_output = OutEmpty,
                  res_diagnostics = [(''error'', JStr ''invalid_query'')] \<rparr>, w)
         else
           (let hits = docs_scan query (take 25 records) []
            in (Inr \<lparr> res_name = ''docs.lookup'', res_success = True,
                      res_output = OutDocHits hits,
                      res_diagnostics = [(''query'', JStr query),
                                         (''hit_count'', JInt (int (length hits)))] \<rparr>, w)))"

definition DocumentLookupTool :: "platform \<Rightarrow> doc_record list \<Rightarrow> tool" where
  "DocumentLookupTool pf records =
     \<lparr> tool_name = ''docs.lookup'',
       tool_is_allowed = (\<lambda>request. Inr (base_is_allowed 4 request)),
       tool_invoke = docs_invoke pf records \<rparr>"

subsection \<open>The curated web search tool\<close>

definition CURATED_RESULTS :: "curated_result list" where
  "CURATED_RESULTS =
     [\<lparr> cr_title = ''AI Observability Basics'',
        cr_url = ''https://example.org/observability'',
        cr_summary = ''Explains latency percentiles, trace IDs, and metrics useful for agent systems.'',
        cr_tags = [''metrics'', ''observability''] \<rparr>,
      \<lparr> cr_title = ''Tool Orchestration Blueprint'',
        cr_url = ''https://example.org/tools'',
        cr_summary = ''Patterns for secure tool execution, guardrails, and audit logging.'',
        cr_tags = [''tools'', ''security''] \<rparr>,
      \<lparr> cr_title = ''Education Benchmarks 2025'',
        cr_url = ''https://example.org/edu-bench'',
        cr_summary = ''Latest data on AI tutor effectiveness across 50 judge scenarios.'',
        cr_tags = [''education'', ''benchmarks''] \<rparr>]"

definition allowed_tags :: "string list" where
  "allowed_tags = [''metrics'', ''tools'', ''education'']"

text \<open>The loop of \<open>invoke\<close>; \<open>None\<close> is its early return with the error \<open>unsafe_tag\<close>.\<close>

fun web_scan :: "string \<Rightarrow> string \<Rightarrow> curated_result list \<Rightarrow> curated_result list
                 \<Rightarrow> curated_result list option" where
  "web_scan query tag [] hits = Some hits"
| "web_scan query tag (r # rs) hits =
     (if query \<noteq> [] \<and> \<not> py_in query (py_lower (cr_summary r))
           \<and> \<not> py_in query (py_lower (cr_title r))
      then web_scan query tag rs hits
      else if tag \<noteq> [] \<and> tag \<notin> set allowed_tags then None
      else if tag \<noteq> [] \<and> tag \<notin> set (cr_tags r) then web_scan query tag rs hits
      else web_scan query tag rs (hits @ [r]))"

definition web_invoke :: "platform \<Rightarrow> tool_request \<Rightarrow> world \<Rightarrow> (py_error + tool_result) \<times> world" where
  "web_invoke pf request w =
     (let query = py_lower (py_str pf (py_or (dict_get (req_arguments request) ''query'' JNull) (JStr [])));
          tag = py_lower (py_str pf (py_or (dict_get (req_arguments request) ''tag'' JNull) (JStr [])))
      in case web_scan query tag CURATED_RESULTS [] of
           None \<Rightarrow>
             (Inr \<lparr> res_name = ''web.search'', res_success = False, res_output = OutEmpty,
                    res_diagnostics = [(''error'', JStr ''unsafe_tag'')] \<rparr>, w)
         | Some hits \<Rightarrow>
             (Inr \<lparr> res_name = ''web.search'', res_success = True,
                    res_output = OutWebHits (take 3 hits),
                    res_diagnostics = [(''query'', JStr query), (''tag'', JStr tag),
                                       (''hit_count'', JInt (int (length (take 3 hits))))] \<rparr>, w))"

definition CuratedWebSearchTool :: "platform \<Rightarrow> tool" where
  "CuratedWebSearchTool pf =
     \<lparr> tool_name = ''web.search'',
       tool_is_allowed = (\<lambda>request. Inr (base_is_allowed 4 request)),
       tool_invoke = web_invoke pf \<rparr>"

text \<open>
  \<open>build_default_registry\<close>: the three tools that are always present. The optional MCP
  tools, registered only when their imports succeed, are not modelled.
\<close>

definition build_default_registry :: "platform \<Rightarrow> doc_record list \<Rightarrow> tool_registry" where
  "build_default_registry pf records =
     register (CuratedWebSearchTool pf)
       (register (DocumentLookupTool pf records)
          (register (CalendarTool pf) Map.empty))"


section \<open>The intent classifier\<close>

text \<open>
  \<open>IntentAgent.classify\<close> (intent.py). The prediction is the dictionary the code
  returns: the confidence is the string literal written there.
\<close>

definition planner_cues :: "string list" where
  "planner_cues = [''teach'', ''explain'', ''learn'', ''what is'', ''how does'', ''advice'',
                   ''suggest'', ''plan'', ''roadmap'', ''problem'', ''stuck'', ''review'',
                   ''feedback'']"

definition task_cues :: "string list" where
  "task_cues = [''task'', ''todo'', ''remind'', ''reminder'', ''add event'', ''schedule'',
                ''calendar'']"

definition emotion_cues :: "string list" where
  "emotion_cues = [''sad'', ''stress'', ''anx'', ''feel'', ''upset'', ''depress'', ''lonely'',
                   ''happy'', ''excited'']"

definition summary_cues :: "string list" where
  "summary_cues = [''summary'', ''summarize'', ''tl;dr'', ''summ'']"

definition classify :: "string \<Rightarrow> pydict" where
  "classify text =
     (let t = py_lower text
      in if list_ex (\<lambda>k. py_in k t) planner_cues then
           [(''intent'', JStr ''planner''), (''confidence'', JStr ''0.9'')]
         else if list_ex (\<lambda>k. py_in k t) task_cues then
           [(''intent'', JStr ''task''), (''confidence'', JStr ''0.9'')]
         else if list_ex (\<lambda>k. py_in k t) emotion_cues then
           [(''intent'', JStr ''emotion''), (''confidence'', JStr ''0.9'')]
         else if list_ex (\<lambda>k. py_in k t) summary_cues then
           [(''intent'', JStr ''summary''), (''confidence'', JStr ''0.8'')]
         else
           [(''intent'', JStr ''general''), (''confidence'', JStr ''0.6'')])"

section \<open>The planner\<close>

text \<open>
  The envelope, with the two nested dictionaries \<open>meta\<close> and \<open>payload\<close> flattened; a
  field that the dictionary does not hold is \<open>None\<close>.
\<close>

record envelope =
  meta_from :: "string option"
  meta_to :: "string option"
  meta_trace_id :: "string option"
  payload_user_id :: "string option"
  payload_session_id :: "string option"
  payload_text :: "string option"
  payload_intent :: "pydict option"

datatype handle_result =
    ErrorResult string string
  | Resumed kv_value string
  | Completed plan_state string
  | OkResult string

fun result_status :: "handle_result \<Rightarrow> string" where
  "result_status (ErrorResult err reply) = ''error''"
| "result_status (Resumed checkpoint reply) = ''resumed''"
| "result_status (Completed plan reply) = ''completed''"
| "result_status (OkResult reply) = ''ok''"

definition timeline_entry :: "string \<Rightarrow> string \<Rightarrow> world \<Rightarrow> timeline_entry" where
  "timeline_entry stage summary w =
     \<lparr> tl_stage = stage, tl_summary = summary, tl_timestamp = clock w \<rparr>"

definition scaffolding :: "string list" where
  "scaffolding = [''Clarify success criteria'', ''Research constraints'', ''Design approach'',
                  ''Prototype or pilot'', ''Measure outcomes'', ''Iterate and scale'',
                  ''Document learnings'', ''Share results'']"

definition draft_plan :: "string \<Rightarrow> depth_cfg \<Rightarrow> plan_step list" where
  "draft_plan g depth_cfg =
     map (\<lambda>idx. \<lparr> st_step = idx + 1,
                   st_action = scaffolding ! (idx mod length scaffolding)
                                 @ '' for the goal: '' @ g @ ''.'',
                   st_success = ''Evidence of progress captured in notes and metrics.'',
                   st_status = ''planned'' \<rparr>)
         [0 ..< steps depth_cfg]"

text \<open>
  \<open>_maybe_call_tool\<close>. The entry's diagnostics get a \<open>warning\<close> key when the call did
  not succeed. In the code that dictionary is also the one held by the audit event of
  a call whose \<open>invoke\<close> returned; the model does not rewrite the audit event.
\<close>

definition tool_intent :: "plan_step \<Rightarrow> string \<Rightarrow> py_error + (string \<times> pydict) option" where
  "tool_intent st g =
     (let action_text = py_lower (st_action st);
          goal_text = py_lower g
      in if py_in ''research'' action_text \<or> py_in ''document'' action_text then
           Inr (Some (''docs.lookup'', [(''query'', JStr (take 160 g))]))
         else if list_ex (\<lambda>word. py_in word action_text) [''measure'', ''monitor'', ''scan''] then
           (case py_split g of
              [] \<Rightarrow> Inl (IndexError ''list index out of range'')
            | first # _ \<Rightarrow>
                Inr (Some (''web.search'', [(''query'', JStr first), (''tag'', JStr ''metrics'')])))
         else if list_ex (\<lambda>word. py_in word goal_text) [''schedule'', ''calendar'', ''onboard''] then
           Inr (Some (''calendar.manage'',
                      [(''action'', JStr ''add_hold''), (''title'', JStr (take 60 g))]))
         else Inr None)"

definition maybe_call_tool ::
  "tool_registry \<Rightarrow> plan_step \<Rightarrow> string \<Rightarrow> string \<Rightarrow> string \<Rightarrow> string \<Rightarrow> world
     \<Rightarrow> (py_error + tool_entry option) \<times> world" where
  "maybe_call_tool tools st g user_id session_id trace_id w =
     (case tool_intent st g of
        Inl exc \<Rightarrow> (Inl exc, w)
      | Inr None \<Rightarrow> (Inr None, w)
      | Inr (Some (name, arguments)) \<Rightarrow>
          (case call tools name user_id session_id
                  (trace_id @ '':'' @ str_nat (st_step st)) (Some arguments) w of
             (Inl exc, w') \<Rightarrow> (Inl exc, w')
           | (Inr result, w') \<Rightarrow>
               (let diag = res_diagnostics result;
                    diag' = (if \<not> res_success result
                             then dict_set diag ''warning''
                                    (dict_get diag ''warning'' (JStr ''guardrail or runtime failure''))
                             else diag)
                in (Inr (Some \<lparr> te_step = st_step st,
                                  te_tool = res_name result,
                                  te_success = res_success result,
                                  te_output = res_output result,
                                  te_diagnostics = diag' \<rparr>), w'))))"

fun execute_loop ::
  "tool_registry \<Rightarrow> string \<Rightarrow> string \<Rightarrow> string \<Rightarrow> string \<Rightarrow> plan_step list
     \<Rightarrow> log_entry list \<Rightarrow> tool_entry list \<Rightarrow> world
     \<Rightarrow> (py_error + log_entry list \<times> tool_entry list) \<times> world" where
  "execute_loop tools trace_id user_id session_id g [] execution_log tool_calls w =
     (Inr (execution_log, tool_calls), w)"
| "execute_loop tools trace_id user_id session_id g (st # rest) execution_log tool_calls w =
     (let note = ''Validated step '' @ str_nat (st_step st)
                   @ '' by defining deliverables and aligning them with the goal.'';
          execution_log' = execution_log @
            [\<lparr> log_step = st_step st, log_action = st_action st,
               log_result = note, log_status = ''completed'' \<rparr>]
      in case maybe_call_tool tools st g user_id session_id trace_id w of
           (Inl exc, w') \<Rightarrow> (Inl exc, w')
         | (Inr tool_entry, w') \<Rightarrow>
             execute_loop tools trace_id user_id session_id g rest execution_log'
               (case tool_entry of None \<Rightarrow> tool_calls | Some e \<Rightarrow> tool_calls @ [e]) w')"

definition execute_plan ::
  "tool_registry \<Rightarrow> plan_step list \<Rightarrow> string \<Rightarrow> string \<Rightarrow> string \<Rightarrow> string \<Rightarrow> world
     \<Rightarrow> (py_error + log_entry list \<times> tool_entry list) \<times> world" where
  "execute_plan tools drafted trace_id user_id session_id g w =
     execute_loop tools trace_id user_id session_id g drafted [] [] w"

definition reflect :: "plan_step list \<Rightarrow> log_entry list \<Rightarrow> depth_cfg \<Rightarrow> string" where
  "reflect drafted execution_log depth_cfg =
     (let focus = (if 1 < reflection_prompts depth_cfg then ''comprehensive'' else ''quick'')
      in ''Completed '' @ str_nat (length drafted) @ '' steps with '' @ focus
           @ '' reflection. Key takeaway: keep tracking metrics after each iteration to detect risks early.'')"

fun join_lines :: "string list \<Rightarrow> string" where
  "join_lines [] = []"
| "join_lines [l] = l"
| "join_lines (l # ls) = l @ [CHR 0x0A] @ join_lines ls"

definition plan_banner :: string where
  "plan_banner = [CHR 0xC3, CHR 0xB0, CHR 0xC5, CHR 0xB8, CHR 0xC2, CHR 0xA7, CHR 0xC2, CHR 0xAD]
                   @ '' **Multi-Step Plan Created**'' @ [CHR 0x0A, CHR 0x0A]"

definition format_response :: "plan_state \<Rightarrow> string" where
  "format_response plan_state =
     (let bullets = join_lines
            (map (\<lambda>st. str_nat (st_step st) @ ''. '' @ st_action st)
                 (take 4 (plan_steps plan_state)))
      in plan_banner
           @ ''Goal: '' @ plan_goal plan_state @ [CHR 0x0A]
           @ ''Depth: '' @ level (plan_depth plan_state) @ '' (''
           @ str_nat (steps (plan_depth plan_state)) @ '' steps)'' @ [CHR 0x0A, CHR 0x0A]
           @ ''First steps:'' @ [CHR 0x0A] @ bullets @ [CHR 0x0A, CHR 0x0A]
           @ ''Reflection: '' @ plan_reflection plan_state)"

text \<open>
  The part of \<open>handle\<close> after the resume check: depth, draft, execute, reflect, persist.
\<close>

definition build_plan ::
  "platform \<Rightarrow> tool_registry \<Rightarrow> string \<Rightarrow> string \<Rightarrow> string \<Rightarrow> pydict \<Rightarrow> string \<Rightarrow> world
     \<Rightarrow> (py_error + handle_result) \<times> world" where
  "build_plan pf tools user_id session_id g intent_payload trace_id w =
     (case determine_depth intent_payload g of
        Inl exc \<Rightarrow> (Inl exc, w)
      | Inr depth_cfg \<Rightarrow>
          (let t1 = timeline_entry ''depth''
                      (''level='' @ level depth_cfg @ '' steps='' @ str_nat (steps depth_cfg)) w;
               drafted = draft_plan g depth_cfg;
               t2 = timeline_entry ''plan''
                      (''drafted '' @ str_nat (length drafted) @ '' steps'') w
           in case execute_plan tools drafted trace_id user_id session_id g w of
                (Inl exc, w1) \<Rightarrow> (Inl exc, w1)
              | (Inr (execution_log, tool_calls), w1) \<Rightarrow>
                  (let t3 = timeline_entry ''execute''
                              (''logged '' @ str_nat (length execution_log) @ '' execution notes'') w1;
                       reflection = reflect drafted execution_log depth_cfg;
                       t4 = timeline_entry ''reflect'' (take 160 reflection) w1;
                       (pid, w2) = uuid4 w1;
                       plan_state = \<lparr> plan_id = pid,
                                      plan_user_id = user_id,
                                      plan_session_id = session_id,
                                      plan_goal = g,
                                      plan_depth = depth_cfg,
                                      plan_steps = drafted,
                                      plan_execution_log = execution_log,
                                      plan_tool_calls = tool_calls,
                                      plan_reflection = reflection,
                                      plan_timeline = [t1, t2, t3, t4],
                                      plan_done = True,
                                      plan_timestamp = clock w2 \<rparr>;
                       w3 = memory_set pf ''planner_runs'' user_id (VPlan plan_state)
                              (Some trace_id) w2
                   in (Inr (Completed plan_state (format_response plan_state)), w3))))"

text \<open>
  \<open>PlannerAgent.handle\<close>. The agent's tools are the default registry built over its
  memory bank. A stored value that is truthy is the checkpoint: a list has no
  \<open>get\<close>, a dictionary without the key \<open>goal\<close> gives the default text.
\<close>

definition resume_reply :: "string \<Rightarrow> string" where
  "resume_reply g = ''Resuming your most recent plan for '' @ [CHR 0x22] @ g @ [CHR 0x22]
                      @ ''. You can start from any step or ask for adjustments.''"

definition handle ::
  "platform \<Rightarrow> doc_record list \<Rightarrow> envelope \<Rightarrow> world \<Rightarrow> (py_error + handle_result) \<times> world" where
  "handle pf records envelope w0 =
     (let user_id = (case payload_user_id envelope of None \<Rightarrow> ''user'' | Some u \<Rightarrow> u);
          session_id = (case payload_session_id envelope of None \<Rightarrow> ''session'' | Some s \<Rightarrow> s);
          g = py_strip (case payload_text envelope of None \<Rightarrow> [] | Some t \<Rightarrow> t);
          intent_payload = (case payload_intent envelope of None \<Rightarrow> [] | Some d \<Rightarrow> d);
          (trace_id, w) = (case meta_trace_id envelope of
                             None \<Rightarrow> uuid4 w0
                           | Some t \<Rightarrow> if t = [] then uuid4 w0 else (t, w0))
      in if g = [] then
           (Inr (ErrorResult ''missing_goal'' ''Please describe what you want to plan.''), w)
         else
           (case memory_get ''planner_runs'' user_id None w of
              Some (VPlan p) \<Rightarrow> (Inr (Resumed (VPlan p) (resume_reply (plan_goal p))), w)
            | Some (VSession s) \<Rightarrow> (Inr (Resumed (VSession s) (resume_reply ''your goal'')), w)
            | Some (VEvents (e # es)) \<Rightarrow>
                (Inl (AttributeError ''list object has no attribute get''), w)
            | _ \<Rightarrow>
                build_plan pf (build_default_registry pf records)
                  user_id session_id g intent_payload trace_id w))"

section \<open>The router\<close>

text \<open>
  \<open>RouterAgent.route\<close>, for a router built over a memory bank. The handlers of the
  general and the casual-support persona are parameters.
\<close>

type_synonym handler = "envelope \<Rightarrow> world \<Rightarrow> (py_error + handle_result) \<times> world"

definition route ::
  "platform \<Rightarrow> doc_record list \<Rightarrow> handler \<Rightarrow> handler \<Rightarrow> string \<Rightarrow> string \<Rightarrow> string \<Rightarrow> world
     \<Rightarrow> (py_error + envelope \<times> handle_result) \<times> world" where
  "route pf records general bestfriend user_id session_id text w0 =
     (let (trace_id, w) = uuid4 w0;
          intent = classify text;
          to = (case dict_get intent ''intent'' JNull of JStr s \<Rightarrow> s | _ \<Rightarrow> []);
          envelope = \<lparr> meta_from = Some ''router'', meta_to = Some to,
                       meta_trace_id = Some trace_id,
                       payload_user_id = Some user_id,
                       payload_session_id = Some session_id,
                       payload_text = Some text,
                       payload_intent = Some intent \<rparr>;
          dispatched =
            (if to = ''task'' then general envelope w
             else if to = ''planner'' then handle pf records envelope w
             else if to = ''emotion'' then bestfriend envelope w
             else (Inr (OkResult (''Handled by general router: '' @ take 120 text)), w))
      in case dispatched of
           (Inl exc, w1) \<Rightarrow> (Inl exc, w1)
         | (Inr result, w1) \<Rightarrow>
             (Inr (envelope, result),
              memory_set pf ''sessions'' session_id
                (VSession \<lparr> sf_user_id = user_id, sf_intent = intent \<rparr>) (Some trace_id) w1))"


section \<open>The retrieval store\<close>

text \<open>
  \<open>RAGKnowledgeBase\<close> (rag.py). A \<open>Counter\<close> is the list of its keys, in insertion order,
  with their counts. The pickled store is the sequence of record lists written to it,
  the newest first.

  The scores are doubles, and rounding decides which scores tie. A double is modelled by
  its real value, and the double arithmetic of the platform is a parameter: \<open>rnd\<close> maps
  an exact result to the double that the operation returns (IEEE 754 rounds \<open>+\<close>, \<open>-\<close>,
  \<open>*\<close>, \<open>/\<close> and \<open>sqrt\<close>, the conversion of an integer and the reading of a decimal literal
  that way), \<open>fsum\<close> is the built-in \<open>sum\<close> over floats, \<open>np_dot\<close> and \<open>np_norm\<close> are
  \<open>numpy.dot\<close> and \<open>numpy.linalg.norm\<close>. The encoder and the presence of numpy are
  parameters too. Infinities and NaN are not modelled.
\<close>

type_synonym counter = "(string \<times> nat) list"

fun counter_incr :: "string \<Rightarrow> counter \<Rightarrow> counter" where
  "counter_incr t [] = [(t, 1)]"
| "counter_incr t ((k, n) # c) = (if k = t then (k, n + 1) # c else (k, n) # counter_incr t c)"

definition Counter :: "string list \<Rightarrow> counter" where
  "Counter ts = foldl (\<lambda>c t. counter_incr t c) [] ts"

definition counter_get :: "counter \<Rightarrow> string \<Rightarrow> nat" where
  "counter_get c t = (case map_of c t of None \<Rightarrow> 0 | Some n \<Rightarrow> n)"

definition STOPWORDS :: "string list" where
  "STOPWORDS = [''the'', ''and'', ''you'', ''for'', ''that'', ''with'', ''are'', ''this'', ''was'',
                ''but'', ''have'', ''not'', ''your'', ''from'', ''will'', ''then'', ''been'',
                ''into'', ''about'', ''when'', ''what'', ''will'', ''their'', ''there'']"

record document_chunk =
  doc_id :: string
  chunk_id :: string
  title :: string
  source :: string
  content :: string
  updated_at :: real
  embedding :: "real list"
  keyword_counts :: counter

definition bullet :: string where
  "bullet = [CHR 0xC3, CHR 0xA2, CHR 0xE2, CHR 0x82, CHR 0xAC, CHR 0xC2, CHR 0xA2]"

definition citation :: "document_chunk \<Rightarrow> string" where
  "citation c = title c @ '' ('' @ source c @ '') '' @ bullet @ '' chunk '' @ chunk_id c"

record rag_env =
  encode :: "string \<Rightarrow> real list"
  numpy_available :: bool
  rnd :: "real \<Rightarrow> real"
  fsum :: "real list \<Rightarrow> real"
  np_dot :: "real list \<Rightarrow> real list \<Rightarrow> real"
  np_norm :: "real list \<Rightarrow> real"

record rag_kb =
  kb_records :: "document_chunk list"
  kb_written :: "document_chunk list list"

definition save :: "rag_kb \<Rightarrow> rag_kb" where
  "save kb = kb \<lparr> kb_written := kb_records kb # kb_written kb \<rparr>"

definition alnum_chars :: string where
  "alnum_chars = ''abcdefghijklmnopqrstuvwxyz0123456789''"

text \<open>\<open>re.findall(r"[a-z0-9]+", s)\<close>: the maximal runs of lower-case letters and digits.\<close>

fun findall_alnum :: "string \<Rightarrow> string \<Rightarrow> string list" where
  "findall_alnum cur [] = (if cur = [] then [] else [cur])"
| "findall_alnum cur (c # cs) =
     (if c \<in> set alnum_chars then findall_alnum (cur @ [c]) cs
      else if cur = [] then findall_alnum [] cs
      else cur # findall_alnum [] cs)"

definition keywords_of :: "string \<Rightarrow> counter" where
  "keywords_of s =
     (let tokens = findall_alnum [] (py_lower s);
          filtered = filter (\<lambda>tok. tok \<notin> set STOPWORDS \<and> 2 < length tok) tokens
      in Counter filtered)"

definition keyword_overlap :: "rag_env \<Rightarrow> counter \<Rightarrow> counter \<Rightarrow> real" where
  "keyword_overlap env q d =
     (let numerator = sum_list (map (\<lambda>token. min (counter_get q token) (counter_get d token))
                                    (map fst q));
          q_total = sum_list (map snd q);
          denominator = (if q_total = 0 then 1 else q_total)
      in rnd env (real numerator / real denominator))"

text \<open>
  \<open>_cosine\<close>. With numpy the product of two vectors of different lengths raises; without
  it both vectors are cut to the shorter length, and the division raises if the product
  of two norms that are not zero is rounded to zero.
\<close>

definition cosine :: "rag_env \<Rightarrow> real list \<Rightarrow> real list \<Rightarrow> py_error + real" where
  "cosine env a b =
     (if numpy_available env then
        (if \<not> list_ex (\<lambda>x. x \<noteq> 0) a \<or> \<not> list_ex (\<lambda>x. x \<noteq> 0) b then Inr 0
         else let denom = rnd env (np_norm env a * np_norm env b)
              in if denom = 0 then Inr 0
                 else if length a \<noteq> length b then Inl (ValueError ''shapes not aligned'')
                 else Inr (rnd env (np_dot env a b / denom)))
      else
        (if a = [] \<or> b = [] then Inr 0
         else let limit = min (length a) (length b);
                  dot = fsum env (map2 (\<lambda>x y. rnd env (x * y)) (take limit a) (take limit b));
                  norm_a = rnd env (sqrt (fsum env (map (\<lambda>x. rnd env (x * x)) (take limit a))));
                  norm_b = rnd env (sqrt (fsum env (map (\<lambda>x. rnd env (x * x)) (take limit b))))
              in if norm_a = 0 \<or> norm_b = 0 then Inr 0
                 else let denom = rnd env (norm_a * norm_b)
                      in if denom = 0 then Inl (ZeroDivisionError ''float division by zero'')
                         else Inr (rnd env (dot / denom))))"

text \<open>
  The two lines of the loop of \<open>search\<close> that compute the freshness; the division by
  the window raises when the window is 0.
\<close>

definition freshness :: "rag_env \<Rightarrow> real \<Rightarrow> int \<Rightarrow> document_chunk \<Rightarrow> py_error + real" where
  "freshness env now freshness_window_days c =
     (let recency_days = max 0 (rnd env (rnd env (now - updated_at c) / 86400))
      in if freshness_window_days = 0 then Inl (ZeroDivisionError ''float division by zero'')
         else Inr (max (rnd env (2 / 10))
                       (rnd env (1 - rnd env (recency_days
                                               / rnd env (real_of_int freshness_window_days))))))"

text \<open>
  The body of the loop of \<open>search\<close>, which scores one record, and the loop; the first
  exception ends it. The sum of the three products is evaluated from the left.
\<close>

definition chunk_score ::
  "rag_env \<Rightarrow> real list \<Rightarrow> counter \<Rightarrow> real \<Rightarrow> int \<Rightarrow> document_chunk \<Rightarrow> py_error + real" where
  "chunk_score env query_emb query_keywords now window c =
     (case cosine env query_emb (embedding c) of
        Inl exc \<Rightarrow> Inl exc
      | Inr vector_score \<Rightarrow>
          (let keyword_score = keyword_overlap env query_keywords (keyword_counts c)
           in case freshness env now window c of
                Inl exc \<Rightarrow> Inl exc
              | Inr fresh \<Rightarrow>
                  Inr (rnd env (rnd env (rnd env (rnd env (6 / 10) * vector_score)
                                         + rnd env (rnd env (3 / 10) * keyword_score))
                                + rnd env (rnd env (1 / 10) * fresh)))))"

fun score_records ::
  "rag_env \<Rightarrow> real list \<Rightarrow> counter \<Rightarrow> real \<Rightarrow> int \<Rightarrow> document_chunk list
     \<Rightarrow> py_error + (real \<times> document_chunk) list" where
  "score_records env query_emb query_keywords now window [] = Inr []"
| "score_records env query_emb query_keywords now window (c # cs) =
     (case chunk_score env query_emb query_keywords now window c of
        Inl exc \<Rightarrow> Inl exc
      | Inr score \<Rightarrow>
          (case score_records env query_emb query_keywords now window cs of
             Inl exc \<Rightarrow> Inl exc
           | Inr scored \<Rightarrow> Inr ((score, c) # scored)))"

text \<open>
  \<open>list.sort(key=..., reverse=True)\<close>: the list is reversed, sorted stably by the key in
  ascending order, and reversed again.
\<close>

definition sort_reverse :: "('a \<Rightarrow> real) \<Rightarrow> 'a list \<Rightarrow> 'a list" where
  "sort_reverse key xs = rev (sort_key key (rev xs))"

text \<open>The slice \<open>xs[:k]\<close>; a negative \<open>k\<close> counts from the end.\<close>

definition slice_to :: "int \<Rightarrow> 'a list \<Rightarrow> 'a list" where
  "slice_to k xs = (if 0 \<le> k then take (nat k) xs else take (nat (int (length xs) + k)) xs)"

record search_hit =
  hit_score :: real
  hit_content :: string
  hit_citation :: string
  hit_source :: string
  hit_doc_title :: string
  hit_updated_at :: real

definition hit_of :: "real \<times> document_chunk \<Rightarrow> search_hit" where
  "hit_of sc = \<lparr> hit_score = fst sc, hit_content = content (snd sc),
                 hit_citation = citation (snd sc), hit_source = source (snd sc),
                 hit_doc_title = title (snd sc), hit_updated_at = updated_at (snd sc) \<rparr>"

definition search ::
  "rag_env \<Rightarrow> rag_kb \<Rightarrow> real \<Rightarrow> string \<Rightarrow> int \<Rightarrow> int \<Rightarrow> py_error + search_hit list" where
  "search env kb now query top_k freshness_window_days =
     (if py_strip query = [] then Inr []
      else
        (let query_emb = encode env query;
             query_keywords = keywords_of query
         in case score_records env query_emb query_keywords now
                   freshness_window_days (kb_records kb) of
              Inl exc \<Rightarrow> Inl exc
            | Inr scored \<Rightarrow> Inr (map hit_of (slice_to top_k (sort_reverse fst scored)))))"

definition apply_freshness_policy :: "real \<Rightarrow> int \<Rightarrow> rag_kb \<Rightarrow> nat \<times> rag_kb" where
  "apply_freshness_policy now max_age_days kb =
     (let cutoff = now - real_of_int (max_age_days * 86400);
          before = length (kb_records kb);
          kb' = kb \<lparr> kb_records := filter (\<lambda>c. cutoff \<le> updated_at c) (kb_records kb) \<rparr>;
          removed = before - length (kb_records kb')
      in (removed, if removed \<noteq> 0 then save kb' else kb'))"

text \<open>
  The score as the claim words it, in double arithmetic: 0.6 times the cosine plus 0.3
  times the keyword overlap plus 0.1 times the freshness. The cosine is the dot product
  divided by the product of the norms, both as the platform computes them, and 0 for an
  all-zero vector and wherever a norm or that product is zero; the keyword overlap is
  the sum over the query's tokens of the smaller of the two counts, divided by the number
  of query tokens or by 1 if there are none; the freshness is never below 0.2.
\<close>

definition vec_dot :: "rag_env \<Rightarrow> real list \<Rightarrow> real list \<Rightarrow> real" where
  "vec_dot env a b =
     (if numpy_available env then np_dot env a b
      else fsum env (map2 (\<lambda>x y. rnd env (x * y)) a b))"

definition vec_norm :: "rag_env \<Rightarrow> real list \<Rightarrow> real" where
  "vec_norm env a =
     (if numpy_available env then np_norm env a
      else rnd env (sqrt (fsum env (map (\<lambda>x. rnd env (x * x)) a))))"

definition claim_cosine :: "rag_env \<Rightarrow> real list \<Rightarrow> real list \<Rightarrow> real" where
  "claim_cosine env a b =
     (if (\<forall>x \<in> set a. x = 0) \<or> (\<forall>x \<in> set b. x = 0) then 0
      else if vec_norm env a = 0 \<or> vec_norm env b = 0
              \<or> rnd env (vec_norm env a * vec_norm env b) = 0 then 0
      else rnd env (vec_dot env a b / rnd env (vec_norm env a * vec_norm env b)))"

definition claim_keyword_overlap :: "rag_env \<Rightarrow> counter \<Rightarrow> counter \<Rightarrow> real" where
  "claim_keyword_overlap env q d =
     rnd env (real (\<Sum>token\<leftarrow>map fst q. min (counter_get q token) (counter_get d token))
                / real (max 1 (sum_list (map snd q))))"

definition claim_freshness :: "rag_env \<Rightarrow> real \<Rightarrow> int \<Rightarrow> document_chunk \<Rightarrow> real" where
  "claim_freshness env now window c =
     max (rnd env (2 / 10))
         (rnd env (1 - rnd env (max 0 (rnd env (rnd env (now - updated_at c) / 86400))
                                 / rnd env (real_of_int window))))"

definition claim_score :: "rag_env \<Rightarrow> real \<Rightarrow> real \<Rightarrow> real \<Rightarrow> real" where
  "claim_score env vector_score keyword_score fresh =
     rnd env (rnd env (rnd env (rnd env (6 / 10) * vector_score)
                       + rnd env (rnd env (3 / 10) * keyword_score))
              + rnd env (rnd env (1 / 10) * fresh))"

text \<open>
  Two conditions under which \<open>_cosine\<close> returns that cosine. Of the platform: rounding
  zero and summing zeros give zero. Of two vectors: they have the same length and,
  without numpy, the product of their norms is not rounded to zero unless a norm is zero.
\<close>

definition zero_exact :: "rag_env \<Rightarrow> bool" where
  "zero_exact env = (rnd env 0 = 0 \<and> (\<forall>n. fsum env (replicate n 0) = 0))"

definition cosine_defined :: "rag_env \<Rightarrow> real list \<Rightarrow> real list \<Rightarrow> bool" where
  "cosine_defined env a b =
     (length a = length b
      \<and> (numpy_available env \<or> vec_norm env a = 0 \<or> vec_norm env b = 0
           \<or> rnd env (vec_norm env a * vec_norm env b) \<noteq> 0))"


section \<open>A fresh state and a platform, for evaluating the functions\<close>

definition fresh_world :: world where
  "fresh_world = \<lparr> kv = Map.empty, kv_updated_at = Map.empty, audit_events = [],
                    audit_next_id = 1, clock = 0, uuid_supply = 0 \<rparr>"

definition plain_platform :: platform where
  "plain_platform = \<lparr> repr_other = (\<lambda>v. ''?''), repr_value = (\<lambda>v. ''?''),
                       fromisoformat = (\<lambda>s. None), iso_tomorrow = (\<lambda>t. ''1970-01-02T00:00:00'') \<rparr>"

text \<open>A store in which a session footprint sits under the calendar's key.\<close>

definition session_in_events :: world where
  "session_in_events =
     fresh_world \<lparr> kv := [(''events'', ''u1'') \<mapsto>
                            VSession \<lparr> sf_user_id = ''u1'', sf_intent = [] \<rparr>] \<rparr>"

text \<open>A store of two chunks and an encoder, for evaluating the search.\<close>

text \<open>
  Exact arithmetic stands in for the doubles: the scores of the example, 1 and 0.1, are
  far apart.
\<close>

definition sample_env :: rag_env where
  "sample_env = \<lparr> encode = (\<lambda>s. [1, 0]), numpy_available = False,
                   rnd = (\<lambda>x. x), fsum = sum_list,
                   np_dot = (\<lambda>a b. sum_list (map2 (*) a b)),
                   np_norm = (\<lambda>a. sqrt (sum_list (map (\<lambda>x. x * x) a))) \<rparr>"

definition sample_env_numpy :: rag_env where
  "sample_env_numpy = sample_env \<lparr> numpy_available := True \<rparr>"

definition chunk_long :: document_chunk where
  "chunk_long = \<lparr> doc_id = ''c'', chunk_id = ''1'', title = ''C'', source = ''docs/c.md'',
                   content = ''weekly notes'', updated_at = 0, embedding = [1, 0, 0],
                   keyword_counts = [(''weekly'', Suc 0), (''notes'', Suc 0)] \<rparr>"

definition chunk_garden :: document_chunk where
  "chunk_garden = \<lparr> doc_id = ''b'', chunk_id = ''1'', title = ''B'', source = ''docs/b.md'',
                     content = ''gardening tips'', updated_at = 0, embedding = [0, 1],
                     keyword_counts = [(''gardening'', Suc 0), (''tips'', Suc 0)] \<rparr>"

definition chunk_roadmap :: document_chunk where
  "chunk_roadmap = \<lparr> doc_id = ''a'', chunk_id = ''1'', title = ''A'', source = ''docs/a.md'',
                      content = ''weekly AI roadmap'', updated_at = 0, embedding = [1, 0],
                      keyword_counts = [(''weekly'', Suc 0), (''roadmap'', Suc 0)] \<rparr>"

definition sample_kb :: rag_kb where
  "sample_kb = \<lparr> kb_records = [chunk_garden, chunk_roadmap], kb_written = [] \<rparr>"

definition sample_kb_long :: rag_kb where
  "sample_kb_long = \<lparr> kb_records = [chunk_long], kb_written = [] \<rparr>"


section \<open>Properties of depth determination\<close>

lemma determine_depth_numeric:
  assumes "py_num (dict_get ip ''confidence'' (JInt 0)) = Some c"
  shows "determine_depth ip goal =
     Inr \<lparr> steps = (if complex_goal goal then 6 else 4) + (if 85 / 100 \<le> c then 1 else 0),
           level = (if complex_goal goal then ''deep''
                    else if 85 / 100 \<le> c then ''comprehensive'' else ''standard''),
           reflection_prompts = (if complex_goal goal \<or> 85 / 100 \<le> c then 2 else 1) \<rparr>"
  using assms by (simp add: determine_depth_def py_ge_float_def Let_def)

text \<open>
  C3. With a numeric confidence (absent counts as 0) depth determination returns a
  depth: 4 steps, or 6 and level deep for a goal of more than 40 words or with a trigger
  word; a confidence of at least 0.85 adds one step and turns level standard into
  comprehensive; reflection_prompts is 2 unless the level is standard. So steps is 6 or 7
  for complex goals and 4 or 5 otherwise, the result depends on the payload only through
  the confidence number, and a larger confidence never gives fewer steps.
\<close>

theorem determine_depth_spec:
  assumes "py_num (dict_get ip ''confidence'' (JInt 0)) = Some c"
  shows "\<exists>d. determine_depth ip goal = Inr d
           \<and> steps d = (if complex_goal goal then 6 else 4) + (if 85 / 100 \<le> c then 1 else 0)
           \<and> level d = (if complex_goal goal then ''deep''
                        else if 85 / 100 \<le> c then ''comprehensive'' else ''standard'')
           \<and> reflection_prompts d = (if level d \<noteq> ''standard'' then 2 else 1)
           \<and> (complex_goal goal \<longrightarrow> steps d \<in> {6, 7})
           \<and> (\<not> complex_goal goal \<longrightarrow> steps d \<in> {4, 5})
           \<and> (\<forall>ip' c'. py_num (dict_get ip' ''confidence'' (JInt 0)) = Some c' \<longrightarrow>
                  (\<exists>d'. determine_depth ip' goal = Inr d'
                        \<and> (c' = c \<longrightarrow> d' = d)
                        \<and> (c \<le> c' \<longrightarrow> steps d \<le> steps d')))"
proof -
  let ?d = "\<lparr> steps = (if complex_goal goal then 6 else 4) + (if 85 / 100 \<le> c then 1 else 0),
           level = (if complex_goal goal then ''deep''
                    else if 85 / 100 \<le> c then ''comprehensive'' else ''standard''),
           reflection_prompts = (if complex_goal goal \<or> 85 / 100 \<le> c then 2 else 1) \<rparr>"
  have d: "determine_depth ip goal = Inr ?d"
    by (rule determine_depth_numeric [OF assms])
  have other: "\<exists>d'. determine_depth ip' goal = Inr d' \<and> (c' = c \<longrightarrow> d' = ?d)
                  \<and> (c \<le> c' \<longrightarrow> steps ?d \<le> steps d')"
    if "py_num (dict_get ip' ''confidence'' (JInt 0)) = Some c'" for ip' c'
    using determine_depth_numeric [OF that, of goal] by auto
  have "steps ?d = (if complex_goal goal then 6 else 4) + (if 85 / 100 \<le> c then 1 else 0)"
    by simp
  moreover have "level ?d = (if complex_goal goal then ''deep''
                        else if 85 / 100 \<le> c then ''comprehensive'' else ''standard'')"
    by simp
  moreover have "reflection_prompts ?d = (if level ?d \<noteq> ''standard'' then 2 else 1)"
    by simp
  moreover have "complex_goal goal \<longrightarrow> steps ?d \<in> {6, 7}"
    by simp
  moreover have "\<not> complex_goal goal \<longrightarrow> steps ?d \<in> {4, 5}"
    by simp
  ultimately show ?thesis
    using d other by blast
qed

lemma roadmap_goal_complex: "complex_goal ''Create a detailed architecture roadmap''"
  by (simp add: complex_goal_def complexity_triggers_def py_lower_def lower_char_def)

theorem determine_depth_spec_witness:
  "py_num (dict_get [(''intent'', JStr ''planner''), (''confidence'', JFloat (9 / 10))]
             ''confidence'' (JInt 0)) = Some (9 / 10)
   \<and> (\<exists>d. determine_depth [(''intent'', JStr ''planner''), (''confidence'', JFloat (9 / 10))]
             ''Create a detailed architecture roadmap'' = Inr d
          \<and> steps d = 7 \<and> level d = ''deep'' \<and> reflection_prompts d = 2)"
proof -
  have h: "py_num (dict_get [(''intent'', JStr ''planner''), (''confidence'', JFloat (9 / 10))]
             ''confidence'' (JInt 0)) = Some (9 / 10)"
    by (simp add: dict_get_def)
  show ?thesis
    using h determine_depth_spec [OF h, of "''Create a detailed architecture roadmap''"]
      roadmap_goal_complex
    by auto
qed

section \<open>Properties of the tool registry\<close>

lemma default_registry_calendar:
  "build_default_registry pf records ''calendar.manage'' = Some (CalendarTool pf)"
  by (simp add: build_default_registry_def register_def CalendarTool_def
      DocumentLookupTool_def CuratedWebSearchTool_def)

lemma default_registry_docs:
  "build_default_registry pf records ''docs.lookup'' = Some (DocumentLookupTool pf records)"
  by (simp add: build_default_registry_def register_def CalendarTool_def
      DocumentLookupTool_def CuratedWebSearchTool_def)

lemma default_registry_web:
  "build_default_registry pf records ''web.search'' = Some (CuratedWebSearchTool pf)"
  by (simp add: build_default_registry_def register_def CalendarTool_def
      DocumentLookupTool_def CuratedWebSearchTool_def)

lemma call_unknown:
  "tools name = None \<Longrightarrow>
   call tools name user_id session_id trace_id arguments w
     = (Inl (ValueError (''Unknown tool: '' @ name)), w)"
  by (simp add: call_def)

lemma call_blocked:
  assumes "tools name = Some t"
      and "tool_is_allowed t \<lparr> req_name = name, req_arguments = arguments,
             req_user_id = user_id, req_session_id = session_id, req_trace_id = trace_id \<rparr>
           = Inr False"
  shows "call tools name user_id session_id trace_id (Some arguments) w
     = (Inr \<lparr> res_name = name, res_success = False, res_output = OutEmpty,
              res_diagnostics = [(''error'', JStr ''guardrail_violation'')] \<rparr>,
        audit_record ''tool_call'' (Some trace_id) ''warn''
          (tool_call_payload name user_id session_id arguments
             [(''result'', JStr ''guardrail_violation'')]) w)"
  using assms by (simp add: call_def Let_def)

lemma call_allowed:
  assumes "tools name = Some t"
      and "tool_is_allowed t \<lparr> req_name = name, req_arguments = arguments,
             req_user_id = user_id, req_session_id = session_id, req_trace_id = trace_id \<rparr>
           = Inr True"
  shows "call tools name user_id session_id trace_id (Some arguments) w
     = (case tool_invoke t \<lparr> req_name = name, req_arguments = arguments,
             req_user_id = user_id, req_session_id = session_id, req_trace_id = trace_id \<rparr> w of
          (Inr result, w') \<Rightarrow>
             (Inr result,
              audit_record ''tool_call'' (Some trace_id)
                (if res_success result then ''info'' else ''warn'')
                (tool_call_payload name user_id session_id arguments
                   [(''success'', JBool (res_success result)),
                    (''diagnostics'', JDict (res_diagnostics result))]) w')
        | (Inl exc, w') \<Rightarrow>
             (Inr \<lparr> res_name = name, res_success = False, res_output = OutEmpty,
                    res_diagnostics = [(''error'', JStr (exc_str exc))] \<rparr>,
              audit_record ''tool_call'' (Some trace_id) ''error''
                (tool_call_payload name user_id session_id arguments
                   [(''success'', JBool False),
                    (''diagnostics'', JDict [(''error'', JStr (exc_str exc))])]) w'))"
  using assms by (simp add: call_def Let_def split: prod.splits sum.splits)

lemma calendar_is_allowed_outside:
  assumes "truthy a" and "hashable a" and "a \<notin> JStr ` set allowed_actions"
      and "dict_get (req_arguments request) ''action'' JNull = a"
  shows "calendar_is_allowed request = Inr False"
  using assms
  by (cases a) (auto simp: calendar_is_allowed_def in_str_set_def py_or_def)

lemma audit_record_kv [simp]: "kv (audit_record ty tr sev payload w) = kv w"
  by (simp add: audit_record_def Let_def)

lemma audit_record_head:
  "audit_events (audit_record ty tr sev payload w) \<noteq> []
   \<and> ae_severity (hd (audit_events (audit_record ty tr sev payload w))) = sev
   \<and> ae_event_type (hd (audit_events (audit_record ty tr sev payload w))) = ty
   \<and> ae_payload (hd (audit_events (audit_record ty tr sev payload w))) = payload"
  by (simp add: audit_record_def Let_def)

text \<open>
  C6, as the code has it. A call of calendar.manage whose action is a truthy, hashable
  value (any non-empty string, say) outside list_upcoming and add_hold returns the
  guardrail result, leaves the key-value store as it was and puts a warn event at the
  head of the audit trail. The outcome is the same whatever stands in place of the
  tool's invoke method, so invoke is never entered. A falsy action (the empty string,
  None, 0) stands for list_upcoming and is allowed.
\<close>

theorem calendar_guardrail_violation:
  assumes "tools ''calendar.manage'' = Some t"
      and "tool_is_allowed t = calendar_is_allowed"
      and "dict_get arguments ''action'' JNull = a"
      and "truthy a" and "hashable a" and "a \<notin> JStr ` set allowed_actions"
  shows "\<exists>w'. call tools ''calendar.manage'' user_id session_id trace_id (Some arguments) w
           = (Inr \<lparr> res_name = ''calendar.manage'', res_success = False, res_output = OutEmpty,
                    res_diagnostics = [(''error'', JStr ''guardrail_violation'')] \<rparr>, w')
         \<and> kv w' = kv w
         \<and> kv_updated_at w' = kv_updated_at w
         \<and> audit_events w' \<noteq> []
         \<and> ae_severity (hd (audit_events w')) = ''warn''
         \<and> ae_event_type (hd (audit_events w')) = ''tool_call''
         \<and> (\<forall>inv. call (tools(''calendar.manage'' \<mapsto> t \<lparr> tool_invoke := inv \<rparr>))
                      ''calendar.manage'' user_id session_id trace_id (Some arguments) w
                    = call tools ''calendar.manage'' user_id session_id trace_id (Some arguments) w)"
proof -
  let ?req = "\<lparr> req_name = ''calendar.manage'', req_arguments = arguments,
             req_user_id = user_id, req_session_id = session_id, req_trace_id = trace_id \<rparr>"
  let ?w' = "audit_record ''tool_call'' (Some trace_id) ''warn''
          (tool_call_payload ''calendar.manage'' user_id session_id arguments
             [(''result'', JStr ''guardrail_violation'')]) w"
  have blocked: "calendar_is_allowed ?req = Inr False"
    by (rule calendar_is_allowed_outside [OF assms(4,5,6)]) (simp add: assms(3))
  have c1: "call tools ''calendar.manage'' user_id session_id trace_id (Some arguments) w
           = (Inr \<lparr> res_name = ''calendar.manage'', res_success = False, res_output = OutEmpty,
                    res_diagnostics = [(''error'', JStr ''guardrail_violation'')] \<rparr>, ?w')"
    using assms(1) blocked by (simp add: call_def Let_def assms(2))
  have c2: "call (tools(''calendar.manage'' \<mapsto> t \<lparr> tool_invoke := inv \<rparr>))
                      ''calendar.manage'' user_id session_id trace_id (Some arguments) w
           = (Inr \<lparr> res_name = ''calendar.manage'', res_success = False, res_output = OutEmpty,
                    res_diagnostics = [(''error'', JStr ''guardrail_violation'')] \<rparr>, ?w')" for inv
    using blocked by (simp add: call_def Let_def assms(2))
  have "kv ?w' = kv w" by simp
  moreover have "kv_updated_at ?w' = kv_updated_at w"
    by (simp add: audit_record_def Let_def)
  moreover note audit_record_head [of "''tool_call''" "Some trace_id" "''warn''" _ w]
  ultimately show ?thesis
    using c1 c2 by auto
qed

theorem calendar_guardrail_violation_witness:
  "\<exists>w'. call (build_default_registry plain_platform []) ''calendar.manage'' ''u1'' ''s1'' ''t1''
           (Some [(''action'', JStr ''delete_all'')]) fresh_world
         = (Inr \<lparr> res_name = ''calendar.manage'', res_success = False, res_output = OutEmpty,
                  res_diagnostics = [(''error'', JStr ''guardrail_violation'')] \<rparr>, w')
       \<and> kv w' = kv fresh_world
       \<and> ae_severity (hd (audit_events w')) = ''warn''"
proof -
  have a: "dict_get [(''action'', JStr ''delete_all'')] ''action'' JNull = JStr ''delete_all''"
    by (simp add: dict_get_def)
  have b: "JStr ''delete_all'' \<notin> JStr ` set allowed_actions"
    by (simp add: allowed_actions_def)
  have c: "tool_is_allowed (CalendarTool plain_platform) = calendar_is_allowed"
    by (simp add: CalendarTool_def)
  show ?thesis
    using calendar_guardrail_violation [where tools = "build_default_registry plain_platform []"
        and t = "CalendarTool plain_platform" and arguments = "[(''action'', JStr ''delete_all'')]"
        and a = "JStr ''delete_all''" and user_id = "''u1''" and session_id = "''s1''"
        and trace_id = "''t1''" and w = fresh_world, OF default_registry_calendar c a _ _ b]
    by auto
qed

text \<open>
  The claim as stated fails for an action outside the allowed set that is falsy: with
  the empty string as the action the call is allowed, invoke runs and lists the events.
\<close>

theorem calendar_empty_action_allowed:
  "JStr '''' \<notin> JStr ` set allowed_actions
   \<and> fst (call (build_default_registry plain_platform []) ''calendar.manage'' ''u1'' ''s1'' ''t1''
           (Some [(''action'', JStr '''')]) fresh_world)
     = Inr \<lparr> res_name = ''calendar.manage'', res_success = True, res_output = OutEvents [],
             res_diagnostics = [(''count'', JInt 0)] \<rparr>"
  by (simp add: call_def default_registry_calendar CalendarTool_def calendar_is_allowed_def
      base_is_allowed_def in_str_set_def py_or_def dict_get_def allowed_actions_def
      calendar_invoke_def list_upcoming_def events_of_def memory_get_def fresh_world_def)

lemma web_scan_unsafe:
  assumes "tag \<noteq> []" and "tag \<notin> set allowed_tags"
      and "query = [] \<or> (\<exists>r \<in> set rs. py_in query (py_lower (cr_summary r))
                                      \<or> py_in query (py_lower (cr_title r)))"
      and "rs \<noteq> []"
  shows "web_scan query tag rs hits = None"
  using assms
proof (induction rs arbitrary: hits)
  case Nil
  then show ?case by simp
next
  case (Cons r rs)
  show ?case
  proof (cases "query \<noteq> [] \<and> \<not> py_in query (py_lower (cr_summary r))
                 \<and> \<not> py_in query (py_lower (cr_title r))")
    case True
    with Cons.prems have later: "\<exists>r \<in> set rs. py_in query (py_lower (cr_summary r))
                                      \<or> py_in query (py_lower (cr_title r))"
      by auto
    then have "rs \<noteq> []" by auto
    with Cons.IH [OF Cons.prems(1,2)] later have "web_scan query tag rs hits = None"
      by blast
    with True show ?thesis by simp
  next
    case False
    with Cons.prems(1,2) show ?thesis by auto
  qed
qed

text \<open>
  C7, as the code has it. The guardrail of web.search is the argument count alone, so
  a call with a disallowed tag enters invoke. When the query is empty or occurs in the
  title or summary of a curated entry, invoke itself returns the failure, with the
  error code unsafe_tag, and the registry audits it at severity warn.
\<close>

theorem web_search_disallowed_tag:
  assumes "tools ''web.search'' = Some (CuratedWebSearchTool pf)"
      and "length arguments \<le> 4"
      and "py_lower (py_str pf (py_or (dict_get arguments ''tag'' JNull) (JStr []))) = tag"
      and "tag \<noteq> []" and "tag \<notin> set allowed_tags"
      and "py_lower (py_str pf (py_or (dict_get arguments ''query'' JNull) (JStr []))) = query"
      and "query = [] \<or> (\<exists>r \<in> set CURATED_RESULTS. py_in query (py_lower (cr_summary r))
                                      \<or> py_in query (py_lower (cr_title r)))"
  shows "tool_is_allowed (CuratedWebSearchTool pf)
           \<lparr> req_name = ''web.search'', req_arguments = arguments, req_user_id = user_id,
             req_session_id = session_id, req_trace_id = trace_id \<rparr> = Inr True
       \<and> tool_invoke (CuratedWebSearchTool pf)
           \<lparr> req_name = ''web.search'', req_arguments = arguments, req_user_id = user_id,
             req_session_id = session_id, req_trace_id = trace_id \<rparr> w
         = (Inr \<lparr> res_name = ''web.search'', res_success = False, res_output = OutEmpty,
                  res_diagnostics = [(''error'', JStr ''unsafe_tag'')] \<rparr>, w)
       \<and> call tools ''web.search'' user_id session_id trace_id (Some arguments) w
         = (Inr \<lparr> res_name = ''web.search'', res_success = False, res_output = OutEmpty,
                  res_diagnostics = [(''error'', JStr ''unsafe_tag'')] \<rparr>,
            audit_record ''tool_call'' (Some trace_id) ''warn''
              (tool_call_payload ''web.search'' user_id session_id arguments
                 [(''success'', JBool False),
                  (''diagnostics'', JDict [(''error'', JStr ''unsafe_tag'')])]) w)"
proof -
  let ?req = "\<lparr> req_name = ''web.search'', req_arguments = arguments, req_user_id = user_id,
             req_session_id = session_id, req_trace_id = trace_id \<rparr>"
  have ne: "CURATED_RESULTS \<noteq> []"
    by (simp add: CURATED_RESULTS_def)
  have scan: "web_scan query tag CURATED_RESULTS [] = None"
    by (rule web_scan_unsafe [OF assms(4,5,7) ne])
  have allowed: "tool_is_allowed (CuratedWebSearchTool pf) ?req = Inr True"
    using assms(2) by (simp add: CuratedWebSearchTool_def base_is_allowed_def)
  have inv: "tool_invoke (CuratedWebSearchTool pf) ?req w
         = (Inr \<lparr> res_name = ''web.search'', res_success = False, res_output = OutEmpty,
                  res_diagnostics = [(''error'', JStr ''unsafe_tag'')] \<rparr>, w)"
    using scan by (simp add: CuratedWebSearchTool_def web_invoke_def assms(3,6))
  show ?thesis
    using assms(1) allowed inv by (simp add: call_def Let_def)
qed

theorem web_search_disallowed_tag_witness:
  "call (build_default_registry plain_platform []) ''web.search'' ''u1'' ''s1'' ''t1''
     (Some [(''query'', JStr ''Metrics''), (''tag'', JStr ''Secret'')]) fresh_world
   = (Inr \<lparr> res_name = ''web.search'', res_success = False, res_output = OutEmpty,
            res_diagnostics = [(''error'', JStr ''unsafe_tag'')] \<rparr>,
      audit_record ''tool_call'' (Some ''t1'') ''warn''
        (tool_call_payload ''web.search'' ''u1'' ''s1''
           [(''query'', JStr ''Metrics''), (''tag'', JStr ''Secret'')]
           [(''success'', JBool False),
            (''diagnostics'', JDict [(''error'', JStr ''unsafe_tag'')])]) fresh_world)"
proof -
  have tg: "py_lower (py_str plain_platform (py_or (dict_get
              [(''query'', JStr ''Metrics''), (''tag'', JStr ''Secret'')] ''tag'' JNull) (JStr [])))
            = ''secret''"
    by (simp add: dict_get_def py_or_def py_lower_def lower_char_def)
  have qu: "py_lower (py_str plain_platform (py_or (dict_get
              [(''query'', JStr ''Metrics''), (''tag'', JStr ''Secret'')] ''query'' JNull) (JStr [])))
            = ''metrics''"
    by (simp add: dict_get_def py_or_def py_lower_def lower_char_def)
  have hit: "''metrics'' = [] \<or> (\<exists>r \<in> set CURATED_RESULTS.
               py_in ''metrics'' (py_lower (cr_summary r)) \<or> py_in ''metrics'' (py_lower (cr_title r)))"
    by (simp add: CURATED_RESULTS_def py_lower_def lower_char_def)
  have tag_bad: "''secret'' \<notin> set allowed_tags"
    by (simp add: allowed_tags_def)
  show ?thesis
    using web_search_disallowed_tag [where tools = "build_default_registry plain_platform []"
        and pf = plain_platform
        and arguments = "[(''query'', JStr ''Metrics''), (''tag'', JStr ''Secret'')]"
        and tag = "''secret''" and query = "''metrics''" and user_id = "''u1''"
        and session_id = "''s1''" and trace_id = "''t1''" and w = fresh_world,
        OF default_registry_web _ tg _ tag_bad qu hit]
    by simp
qed

text \<open>
  The claim as stated fails: the result of a call with a disallowed tag carries the
  error code of invoke, not the guardrail's.
\<close>

theorem web_search_unsafe_tag_not_guardrail:
  "''secret'' \<notin> set allowed_tags
   \<and> fst (call (build_default_registry plain_platform []) ''web.search'' ''u1'' ''s1'' ''t1''
           (Some [(''tag'', JStr ''secret'')]) fresh_world)
     = Inr \<lparr> res_name = ''web.search'', res_success = False, res_output = OutEmpty,
             res_diagnostics = [(''error'', JStr ''unsafe_tag'')] \<rparr>
   \<and> tool_is_allowed (CuratedWebSearchTool plain_platform)
        \<lparr> req_name = ''web.search'', req_arguments = [(''tag'', JStr ''secret'')],
          req_user_id = ''u1'', req_session_id = ''s1'', req_trace_id = ''t1'' \<rparr> = Inr True"
  by (simp add: call_def default_registry_web CuratedWebSearchTool_def base_is_allowed_def
      web_invoke_def dict_get_def py_or_def py_lower_def lower_char_def allowed_tags_def
      CURATED_RESULTS_def)

text \<open>
  With a query that matches no curated entry the loop never reaches the tag test, and
  the disallowed tag gives a successful, empty result.
\<close>

lemma web_search_disallowed_tag_unmatched_query:
  "fst (call (build_default_registry plain_platform []) ''web.search'' ''u1'' ''s1'' ''t1''
          (Some [(''query'', JStr ''zebra''), (''tag'', JStr ''secret'')]) fresh_world)
   = Inr \<lparr> res_name = ''web.search'', res_success = True, res_output = OutWebHits [],
           res_diagnostics = [(''query'', JStr ''zebra''), (''tag'', JStr ''secret''),
                              (''hit_count'', JInt 0)] \<rparr>"
  by (simp add: call_def default_registry_web CuratedWebSearchTool_def base_is_allowed_def
      web_invoke_def dict_get_def py_or_def py_lower_def lower_char_def allowed_tags_def
      CURATED_RESULTS_def)

text \<open>
  What holds of the registry whatever the tools are: a name that is not registered makes
  \<open>call\<close> raise ValueError, a guardrail check that returns leads to a ToolResult, and an
  exception raised by invoke becomes a failed result that carries its message.
\<close>

lemma call_returns_result:
  "(tools name = None \<longrightarrow>
      call tools name user_id session_id trace_id arguments w
        = (Inl (ValueError (''Unknown tool: '' @ name)), w))
   \<and> (\<forall>t b. tools name = Some t
          \<and> tool_is_allowed t
               \<lparr> req_name = name,
                 req_arguments = (case arguments of None \<Rightarrow> [] | Some a \<Rightarrow> a),
                 req_user_id = user_id, req_session_id = session_id,
                 req_trace_id = trace_id \<rparr> = Inr b
        \<longrightarrow> (\<exists>result w'. call tools name user_id session_id trace_id arguments w
                           = (Inr result, w')))
   \<and> (\<forall>t exc w1. tools name = Some t
          \<and> tool_is_allowed t
               \<lparr> req_name = name,
                 req_arguments = (case arguments of None \<Rightarrow> [] | Some a \<Rightarrow> a),
                 req_user_id = user_id, req_session_id = session_id,
                 req_trace_id = trace_id \<rparr> = Inr True
          \<and> tool_invoke t
               \<lparr> req_name = name,
                 req_arguments = (case arguments of None \<Rightarrow> [] | Some a \<Rightarrow> a),
                 req_user_id = user_id, req_session_id = session_id,
                 req_trace_id = trace_id \<rparr> w = (Inl exc, w1)
        \<longrightarrow> fst (call tools name user_id session_id trace_id arguments w)
              = Inr \<lparr> res_name = name, res_success = False, res_output = OutEmpty,
                      res_diagnostics = [(''error'', JStr (exc_str exc))] \<rparr>)"
  by (auto simp: call_def Let_def split: prod.splits sum.splits)

lemma call_returns_result_example:
  "call (build_default_registry plain_platform []) ''calendar.delete'' ''u1'' ''s1'' ''t1''
      None fresh_world
     = (Inl (ValueError ''Unknown tool: calendar.delete''), fresh_world)
   \<and> fst (call (build_default_registry plain_platform []) ''calendar.manage'' ''u1'' ''s1'' ''t1''
          None session_in_events)
     = Inr \<lparr> res_name = ''calendar.manage'', res_success = False, res_output = OutEmpty,
             res_diagnostics = [(''error'', JStr ''unhashable type: slice'')] \<rparr>"
proof -
  have unknown: "build_default_registry plain_platform [] ''calendar.delete'' = None"
    by (simp add: build_default_registry_def register_def CalendarTool_def
        DocumentLookupTool_def CuratedWebSearchTool_def)
  have allowed: "tool_is_allowed (CalendarTool plain_platform)
               \<lparr> req_name = ''calendar.manage'',
                 req_arguments = (case None of None \<Rightarrow> [] | Some a \<Rightarrow> a),
                 req_user_id = ''u1'', req_session_id = ''s1'',
                 req_trace_id = ''t1'' \<rparr> = Inr True"
    by (simp add: CalendarTool_def calendar_is_allowed_def base_is_allowed_def in_str_set_def
        py_or_def dict_get_def allowed_actions_def)
  have raises: "tool_invoke (CalendarTool plain_platform)
               \<lparr> req_name = ''calendar.manage'',
                 req_arguments = (case None of None \<Rightarrow> [] | Some a \<Rightarrow> a),
                 req_user_id = ''u1'', req_session_id = ''s1'',
                 req_trace_id = ''t1'' \<rparr> session_in_events
             = (Inl (TypeError ''unhashable type: slice''), session_in_events)"
    by (simp add: CalendarTool_def calendar_invoke_def py_or_def dict_get_def list_upcoming_def
        events_of_def memory_get_def session_in_events_def fresh_world_def)
  from call_returns_result [where tools = "build_default_registry plain_platform []"
      and name = "''calendar.delete''" and user_id = "''u1''" and session_id = "''s1''"
      and trace_id = "''t1''" and arguments = None and w = fresh_world] unknown
  have first: "call (build_default_registry plain_platform []) ''calendar.delete'' ''u1'' ''s1''
      ''t1'' None fresh_world = (Inl (ValueError ''Unknown tool: calendar.delete''), fresh_world)"
    by simp
  from call_returns_result [where tools = "build_default_registry plain_platform []"
      and name = "''calendar.manage''" and user_id = "''u1''" and session_id = "''s1''"
      and trace_id = "''t1''" and arguments = None and w = session_in_events]
    default_registry_calendar [of plain_platform "[]"] allowed raises
  have second: "fst (call (build_default_registry plain_platform []) ''calendar.manage'' ''u1''
      ''s1'' ''t1'' None session_in_events)
     = Inr \<lparr> res_name = ''calendar.manage'', res_success = False, res_output = OutEmpty,
             res_diagnostics = [(''error'', JStr ''unhashable type: slice'')] \<rparr>"
    by (metis exc_str.simps(2))
  from first second show ?thesis by simp
qed

text \<open>
  C10, on the code. The name calendar.manage is registered, and yet a call of it whose
  action is the list with the one entry delete_all raises TypeError to the caller instead
  of returning a ToolResult: the guardrail check of the calendar tool tests the action
  for membership in a set, which hashes it, and \<open>call\<close> runs that check outside its try
  block. Nothing is audited.
\<close>

theorem call_guardrail_check_raises:
  "build_default_registry plain_platform [] ''calendar.manage'' = Some (CalendarTool plain_platform)
   \<and> call (build_default_registry plain_platform []) ''calendar.manage'' ''u1'' ''s1'' ''t1''
       (Some [(''action'', JList [JStr ''delete_all''])]) fresh_world
     = (Inl (TypeError ''unhashable type: list''), fresh_world)"
  by (simp add: call_def default_registry_calendar CalendarTool_def calendar_is_allowed_def
      base_is_allowed_def in_str_set_def py_or_def dict_get_def)


section \<open>Properties of the classifier, the planner and the router\<close>

lemma split_from_nonempty: "cur \<noteq> [] \<Longrightarrow> split_from cur s \<noteq> []"
  by (induction s arbitrary: cur) auto

lemma py_split_nonempty: "s \<noteq> [] \<Longrightarrow> \<not> is_space (hd s) \<Longrightarrow> py_split s \<noteq> []"
  by (cases s) (auto simp: py_split_def split_from_nonempty)

lemma dropWhile_snoc_keep: "\<not> P x \<Longrightarrow> \<exists>ys. dropWhile P (zs @ [x]) = ys @ [x]"
  by (induction zs) auto

lemma py_strip_hd:
  assumes "py_strip s \<noteq> []"
  shows "\<not> is_space (hd (py_strip s))"
proof (cases "dropWhile is_space s")
  case Nil
  with assms show ?thesis by (simp add: py_strip_def)
next
  case (Cons x xs)
  then have nx: "\<not> is_space x"
    by (metis hd_dropWhile list.distinct(1) list.sel(1))
  from dropWhile_snoc_keep [where P = is_space and x = x and zs = "rev xs"] nx
  obtain ys where "dropWhile is_space (rev xs @ [x]) = ys @ [x]" by blast
  with Cons have "py_strip s = x # rev ys"
    by (simp add: py_strip_def)
  with nx show ?thesis by simp
qed

lemma stripped_goal_has_word: "py_strip s \<noteq> [] \<Longrightarrow> py_split (py_strip s) \<noteq> []"
  by (simp add: py_split_nonempty py_strip_hd)

lemma call_registered:
  assumes "tools name = Some t"
      and "tool_is_allowed t \<lparr> req_name = name, req_arguments = arguments,
             req_user_id = user_id, req_session_id = session_id, req_trace_id = trace_id \<rparr>
           = Inr b"
  shows "\<exists>result w'. call tools name user_id session_id trace_id (Some arguments) w
                      = (Inr result, w')"
  using assms by (auto simp: call_def Let_def split: prod.splits sum.splits)

lemma tool_intent_cases:
  assumes "py_split g \<noteq> []"
  shows "tool_intent st g = Inr None
       \<or> tool_intent st g = Inr (Some (''docs.lookup'', [(''query'', JStr (take 160 g))]))
       \<or> tool_intent st g = Inr (Some (''web.search'',
             [(''query'', JStr (hd (py_split g))), (''tag'', JStr ''metrics'')]))
       \<or> tool_intent st g = Inr (Some (''calendar.manage'',
             [(''action'', JStr ''add_hold''), (''title'', JStr (take 60 g))]))"
  using assms by (cases "py_split g") (simp_all add: tool_intent_def Let_def)

lemma maybe_call_tool_default:
  assumes "py_split g \<noteq> []"
  shows "\<exists>te w'. maybe_call_tool (build_default_registry pf records) st g
                    user_id session_id trace_id w = (Inr te, w')"
proof -
  let ?tools = "build_default_registry pf records"
  let ?tr = "trace_id @ '':'' @ str_nat (st_step st)"
  have docs: "\<exists>result w'. call ?tools ''docs.lookup'' user_id session_id ?tr (Some args) w
                = (Inr result, w')" for args
    by (rule call_registered [where t = "DocumentLookupTool pf records" and b = "base_is_allowed 4
          \<lparr> req_name = ''docs.lookup'', req_arguments = args, req_user_id = user_id,
            req_session_id = session_id, req_trace_id = ?tr \<rparr>"])
       (simp_all add: default_registry_docs DocumentLookupTool_def)
  have web: "\<exists>result w'. call ?tools ''web.search'' user_id session_id ?tr (Some args) w
                = (Inr result, w')" for args
    by (rule call_registered [where t = "CuratedWebSearchTool pf" and b = "base_is_allowed 4
          \<lparr> req_name = ''web.search'', req_arguments = args, req_user_id = user_id,
            req_session_id = session_id, req_trace_id = ?tr \<rparr>"])
       (simp_all add: default_registry_web CuratedWebSearchTool_def)
  have cal: "\<exists>result w'. call ?tools ''calendar.manage'' user_id session_id ?tr
                (Some [(''action'', JStr ''add_hold''), (''title'', JStr (take 60 g))]) w
                = (Inr result, w')"
    by (rule call_registered [where t = "CalendarTool pf" and b = True])
       (simp_all add: default_registry_calendar CalendarTool_def calendar_is_allowed_def
          base_is_allowed_def in_str_set_def py_or_def dict_get_def allowed_actions_def)
  from tool_intent_cases [OF assms, of st]
  consider (none) "tool_intent st g = Inr None"
    | (d) "tool_intent st g = Inr (Some (''docs.lookup'', [(''query'', JStr (take 160 g))]))"
    | (w) "tool_intent st g = Inr (Some (''web.search'',
             [(''query'', JStr (hd (py_split g))), (''tag'', JStr ''metrics'')]))"
    | (c) "tool_intent st g = Inr (Some (''calendar.manage'',
             [(''action'', JStr ''add_hold''), (''title'', JStr (take 60 g))]))"
    by blast
  then show ?thesis
  proof cases
    case none
    then show ?thesis by (simp add: maybe_call_tool_def)
  next
    case d
    from docs [of "[(''query'', JStr (take 160 g))]"] obtain result w'
      where "call ?tools ''docs.lookup'' user_id session_id ?tr
               (Some [(''query'', JStr (take 160 g))]) w = (Inr result, w')" by blast
    with d show ?thesis by (simp add: maybe_call_tool_def Let_def)
  next
    case w
    from web [of "[(''query'', JStr (hd (py_split g))), (''tag'', JStr ''metrics'')]"]
    obtain result w'
      where "call ?tools ''web.search'' user_id session_id ?tr
               (Some [(''query'', JStr (hd (py_split g))), (''tag'', JStr ''metrics'')]) w
             = (Inr result, w')" by blast
    with w show ?thesis by (simp add: maybe_call_tool_def Let_def)
  next
    case c
    from cal obtain result w'
      where "call ?tools ''calendar.manage'' user_id session_id ?tr
               (Some [(''action'', JStr ''add_hold''), (''title'', JStr (take 60 g))]) w
             = (Inr result, w')" by blast
    with c show ?thesis by (simp add: maybe_call_tool_def Let_def)
  qed
qed

lemma execute_loop_default:
  assumes "py_split g \<noteq> []"
  shows "\<exists>log' calls' w'. execute_loop (build_default_registry pf records) trace_id
             user_id session_id g sts lg calls w = (Inr (log', calls'), w')"
proof (induction sts arbitrary: lg calls w)
  case Nil
  show ?case by simp
next
  case (Cons st sts)
  from maybe_call_tool_default [OF assms, of pf records st user_id session_id trace_id w]
  obtain te w1 where "maybe_call_tool (build_default_registry pf records) st g
                    user_id session_id trace_id w = (Inr te, w1)" by blast
  with Cons.IH show ?case by (simp add: Let_def)
qed

lemma execute_loop_log:
  assumes "execute_loop tools trace_id user_id session_id g sts lg calls w
             = (Inr (log', calls'), w')"
  shows "map log_step log' = map log_step lg @ map st_step sts"
  using assms
proof (induction sts arbitrary: lg calls w)
  case Nil
  then show ?case by simp
next
  case (Cons st sts)
  from Cons.prems obtain te w1
    where m: "maybe_call_tool tools st g user_id session_id trace_id w = (Inr te, w1)"
    by (cases "maybe_call_tool tools st g user_id session_id trace_id w")
       (auto simp: Let_def split: sum.splits)
  with Cons.prems Cons.IH show ?case
    by (fastforce simp: Let_def)
qed

lemma draft_plan_length [simp]: "length (draft_plan g d) = steps d"
  by (simp add: draft_plan_def)




lemma memory_set_kv [simp]:
  "kv (memory_set pf ns k v tr w) = (kv w)((ns, k) \<mapsto> v)"
  by (simp add: memory_set_def)

lemma uuid4_kv [simp]: "kv (snd (uuid4 w)) = kv w"
  by (simp add: uuid4_def)

lemma uuid4_audit [simp]: "audit_events (snd (uuid4 w)) = audit_events w"
  by (simp add: uuid4_def)

lemma build_plan_unfold:
  assumes "determine_depth intent_payload g = Inr d"
      and "execute_plan tools (draft_plan g d) trace_id user_id session_id g w
                 = (Inr (lg, calls), w1)"
  shows "\<exists>plan reply. build_plan pf tools user_id session_id g intent_payload trace_id w
           = (Inr (Completed plan reply),
              memory_set pf ''planner_runs'' user_id (VPlan plan) (Some trace_id) (snd (uuid4 w1)))
         \<and> plan_goal plan = g \<and> plan_user_id plan = user_id \<and> plan_done plan
         \<and> plan_depth plan = d \<and> plan_steps plan = draft_plan g d
         \<and> plan_execution_log plan = lg"
  using assms
  by (simp add: build_plan_def Let_def split_beta)

lemma build_plan_shape:
  assumes "build_plan pf tools user_id session_id g intent_payload trace_id w = (Inr r, w')"
  shows "\<exists>plan reply. r = Completed plan reply
           \<and> plan_goal plan = g
           \<and> plan_user_id plan = user_id
           \<and> plan_done plan
           \<and> determine_depth intent_payload g = Inr (plan_depth plan)
           \<and> plan_steps plan = draft_plan g (plan_depth plan)
           \<and> map log_step (plan_execution_log plan) = map st_step (plan_steps plan)
           \<and> kv w' (''planner_runs'', user_id) = Some (VPlan plan)"
proof -
  from assms obtain d where d: "determine_depth intent_payload g = Inr d"
    by (cases "determine_depth intent_payload g") (simp_all add: build_plan_def)
  obtain res w1 where ex0: "execute_plan tools (draft_plan g d) trace_id user_id session_id g w
                 = (res, w1)"
    by (cases "execute_plan tools (draft_plan g d) trace_id user_id session_id g w") blast
  from assms d ex0 obtain lg calls where res: "res = Inr (lg, calls)"
    by (cases res) (auto simp: build_plan_def Let_def)
  from ex0 res have ex: "execute_plan tools (draft_plan g d) trace_id user_id session_id g w
                 = (Inr (lg, calls), w1)" by simp
  from ex have lg: "map log_step lg = map st_step (draft_plan g d)"
    using execute_loop_log [of tools trace_id user_id session_id g "draft_plan g d" "[]" "[]" w]
    by (simp add: execute_plan_def)
  from build_plan_unfold [OF d ex, of pf] obtain plan reply where
    bp: "build_plan pf tools user_id session_id g intent_payload trace_id w
           = (Inr (Completed plan reply),
              memory_set pf ''planner_runs'' user_id (VPlan plan) (Some trace_id) (snd (uuid4 w1)))"
    and fields: "plan_goal plan = g" "plan_user_id plan = user_id" "plan_done plan"
         "plan_depth plan = d" "plan_steps plan = draft_plan g d" "plan_execution_log plan = lg"
    by blast
  from bp assms have "r = Completed plan reply"
    and "w' = memory_set pf ''planner_runs'' user_id (VPlan plan) (Some trace_id) (snd (uuid4 w1))"
    by simp_all
  with fields d lg show ?thesis by simp
qed

lemma build_plan_default:
  assumes "py_num (dict_get intent_payload ''confidence'' (JInt 0)) = Some c"
      and "py_split g \<noteq> []"
  shows "\<exists>r w'. build_plan pf (build_default_registry pf records) user_id session_id g
                   intent_payload trace_id w = (Inr r, w')"
proof -
  from determine_depth_numeric [OF assms(1), of g] obtain d
    where d: "determine_depth intent_payload g = Inr d" by blast
  from execute_loop_default [OF assms(2), of pf records trace_id user_id session_id
      "draft_plan g d" "[]" "[]" w]
  obtain lg calls w1
    where "execute_plan (build_default_registry pf records) (draft_plan g d) trace_id
             user_id session_id g w = (Inr (lg, calls), w1)"
    by (auto simp: execute_plan_def)
  from build_plan_unfold [OF d this, of pf] show ?thesis by blast
qed

lemma handle_first_call:
  assumes "payload_text envelope = Some t" and "py_strip t \<noteq> []"
      and "kv w (''planner_runs'',
                 case payload_user_id envelope of None \<Rightarrow> ''user'' | Some u \<Rightarrow> u) = None"
      and "py_num (dict_get (case payload_intent envelope of None \<Rightarrow> [] | Some d \<Rightarrow> d)
                     ''confidence'' (JInt 0)) = Some c"
  shows "\<exists>plan reply w'. handle pf records envelope w = (Inr (Completed plan reply), w')
           \<and> plan_goal plan = py_strip t
           \<and> kv w' (''planner_runs'',
                      case payload_user_id envelope of None \<Rightarrow> ''user'' | Some u \<Rightarrow> u)
               = Some (VPlan plan)"
proof -
  let ?user = "case payload_user_id envelope of None \<Rightarrow> ''user'' | Some u \<Rightarrow> u"
  let ?session = "case payload_session_id envelope of None \<Rightarrow> ''session'' | Some s \<Rightarrow> s"
  let ?ip = "case payload_intent envelope of None \<Rightarrow> [] | Some d \<Rightarrow> d"
  obtain trace_id w1 where tr: "(case meta_trace_id envelope of
                             None \<Rightarrow> uuid4 w
                           | Some t \<Rightarrow> if t = [] then uuid4 w else (t, w)) = (trace_id, w1)"
    by (cases "case meta_trace_id envelope of
                             None \<Rightarrow> uuid4 w
                           | Some t \<Rightarrow> if t = [] then uuid4 w else (t, w)") blast
  then have kv1: "kv w1 = kv w"
    by (auto simp: uuid4_def split: option.splits if_splits)
  from build_plan_default [OF assms(4) stripped_goal_has_word [OF assms(2)],
      of pf records ?user ?session trace_id w1]
  obtain r w' where bp: "build_plan pf (build_default_registry pf records) ?user ?session
                   (py_strip t) ?ip trace_id w1 = (Inr r, w')" by blast
  from build_plan_shape [OF bp] obtain plan reply
    where r: "r = Completed plan reply" and g: "plan_goal plan = py_strip t"
      and st: "kv w' (''planner_runs'', ?user) = Some (VPlan plan)" by blast
  have "handle pf records envelope w = (Inr (Completed plan reply), w')"
    using assms(1,2,3) tr kv1 bp r
    by (simp add: handle_def Let_def memory_get_def)
  with g st show ?thesis by blast
qed

lemma handle_resumed:
  assumes "payload_text envelope = Some t" and "py_strip t \<noteq> []"
      and "kv w (''planner_runs'',
                 case payload_user_id envelope of None \<Rightarrow> ''user'' | Some u \<Rightarrow> u)
             = Some (VPlan p)"
  shows "\<exists>w'. handle pf records envelope w
                 = (Inr (Resumed (VPlan p) (resume_reply (plan_goal p))), w')
           \<and> kv w' = kv w \<and> audit_events w' = audit_events w"
proof -
  obtain trace_id w1 where tr: "(case meta_trace_id envelope of
                             None \<Rightarrow> uuid4 w
                           | Some t \<Rightarrow> if t = [] then uuid4 w else (t, w)) = (trace_id, w1)"
    by (cases "case meta_trace_id envelope of
                             None \<Rightarrow> uuid4 w
                           | Some t \<Rightarrow> if t = [] then uuid4 w else (t, w)") blast
  then have kv1: "kv w1 = kv w" and au1: "audit_events w1 = audit_events w"
    by (auto simp: uuid4_def split: option.splits if_splits)
  have "handle pf records envelope w
          = (Inr (Resumed (VPlan p) (resume_reply (plan_goal p))), w1)"
    using assms tr kv1 by (simp add: handle_def Let_def memory_get_def)
  with kv1 au1 show ?thesis by blast
qed

text \<open>
  The resume property on envelopes whose intent confidence is a number or absent: the
  first call completes and stores a checkpoint with the stripped goal; any later call
  for the user, on any state that still holds that checkpoint and with any non-blank
  text and any intent payload, returns it as resumed and changes neither the store nor
  the audit trail.
\<close>

lemma handle_resume_idempotent:
  assumes "payload_text envelope = Some t" and "py_strip t \<noteq> []"
      and "payload_user_id envelope = Some user_id"
      and "kv w (''planner_runs'', user_id) = None"
      and "py_num (dict_get (case payload_intent envelope of None \<Rightarrow> [] | Some d \<Rightarrow> d)
                     ''confidence'' (JInt 0)) = Some c"
  shows "\<exists>plan reply w'. handle pf records envelope w = (Inr (Completed plan reply), w')
           \<and> plan_goal plan = py_strip t
           \<and> kv w' (''planner_runs'', user_id) = Some (VPlan plan)
           \<and> (\<forall>envelope2 t2 w2.
                  payload_text envelope2 = Some t2 \<and> py_strip t2 \<noteq> []
                  \<and> payload_user_id envelope2 = Some user_id
                  \<and> kv w2 (''planner_runs'', user_id) = Some (VPlan plan)
                \<longrightarrow> (\<exists>w3. handle pf records envelope2 w2
                              = (Inr (Resumed (VPlan plan) (resume_reply (plan_goal plan))), w3)
                          \<and> kv w3 = kv w2 \<and> audit_events w3 = audit_events w2))"
proof -
  from handle_first_call [OF assms(1,2) _ assms(5), of w pf records] assms(3,4)
  obtain plan reply w' where
    h: "handle pf records envelope w = (Inr (Completed plan reply), w')"
       "plan_goal plan = py_strip t"
       "kv w' (''planner_runs'', user_id) = Some (VPlan plan)"
    by auto
  have "\<exists>w3. handle pf records envelope2 w2
                = (Inr (Resumed (VPlan plan) (resume_reply (plan_goal plan))), w3)
            \<and> kv w3 = kv w2 \<and> audit_events w3 = audit_events w2"
    if "payload_text envelope2 = Some t2" "py_strip t2 \<noteq> []"
       "payload_user_id envelope2 = Some user_id"
       "kv w2 (''planner_runs'', user_id) = Some (VPlan plan)" for envelope2 t2 w2
    using handle_resumed [OF that(1,2), of w2 plan pf records] that(3,4) by simp
  with h show ?thesis by blast
qed





lemma classify_cases:
  "classify msg = [(''intent'', JStr ''planner''), (''confidence'', JStr ''0.9'')]
   \<or> classify msg = [(''intent'', JStr ''task''), (''confidence'', JStr ''0.9'')]
   \<or> classify msg = [(''intent'', JStr ''emotion''), (''confidence'', JStr ''0.9'')]
   \<or> classify msg = [(''intent'', JStr ''summary''), (''confidence'', JStr ''0.8'')]
   \<or> classify msg = [(''intent'', JStr ''general''), (''confidence'', JStr ''0.6'')]"
  by (simp add: classify_def Let_def)

text \<open>
  C5, on the code. For every text the intent is one of the five labels, and the
  confidence is one of the strings 0.9, 0.8 and 0.6: a string, not a number, so that no
  numeric comparison is defined on it.
\<close>

theorem classify_confidence_is_string:
  "dict_get (classify msg) ''intent'' JNull
     \<in> JStr ` {''planner'', ''task'', ''emotion'', ''summary'', ''general''}
   \<and> dict_get (classify msg) ''confidence'' JNull \<in> JStr ` {''0.9'', ''0.8'', ''0.6''}
   \<and> py_num (dict_get (classify msg) ''confidence'' JNull) = None"
  using classify_cases [of msg] by (auto simp: dict_get_def)

lemma classify_planner_confidence:
  assumes "dict_get (classify msg) ''intent'' JNull = JStr ''planner''"
  shows "classify msg = [(''intent'', JStr ''planner''), (''confidence'', JStr ''0.9'')]"
  using classify_cases [of msg] assms by (auto simp: dict_get_def)

lemma determine_depth_string:
  "dict_get ip ''confidence'' (JInt 0) = JStr s \<Longrightarrow>
   determine_depth ip g
     = Inl (TypeError ''>= not supported between instances of str and float'')"
  by (simp add: determine_depth_def py_ge_float_def Let_def)

lemma handle_string_confidence:
  assumes "payload_text envelope = Some t" and "py_strip t \<noteq> []"
      and "kv w (''planner_runs'',
                 case payload_user_id envelope of None \<Rightarrow> ''user'' | Some u \<Rightarrow> u) = None"
      and "dict_get (case payload_intent envelope of None \<Rightarrow> [] | Some d \<Rightarrow> d)
             ''confidence'' (JInt 0) = JStr s"
  shows "\<exists>w'. handle pf records envelope w
                = (Inl (TypeError ''>= not supported between instances of str and float''), w')
             \<and> kv w' = kv w"
proof -
  obtain trace_id w1 where tr: "(case meta_trace_id envelope of
                             None \<Rightarrow> uuid4 w
                           | Some t \<Rightarrow> if t = [] then uuid4 w else (t, w)) = (trace_id, w1)"
    by (cases "case meta_trace_id envelope of
                             None \<Rightarrow> uuid4 w
                           | Some t \<Rightarrow> if t = [] then uuid4 w else (t, w)") blast
  then have kv1: "kv w1 = kv w"
    by (auto simp: uuid4_def split: option.splits if_splits)
  have "handle pf records envelope w
          = (Inl (TypeError ''>= not supported between instances of str and float''), w1)"
    using assms(1,2,3) tr kv1 determine_depth_string [OF assms(4)]
    by (simp add: handle_def Let_def memory_get_def build_plan_def)
  with kv1 show ?thesis by blast
qed

text \<open>
  Whenever the classifier sends a non-blank text to the planner and the user has no
  checkpoint, the planner's comparison of the string confidence with 0.85 raises, and
  \<open>route\<close> passes the exception on to its caller.
\<close>

lemma route_planner_raises:
  assumes "dict_get (classify msg) ''intent'' JNull = JStr ''planner''"
      and "py_strip msg \<noteq> []"
      and "kv w (''planner_runs'', user_id) = None"
  shows "fst (route pf records general bestfriend user_id session_id msg w)
           = Inl (TypeError ''>= not supported between instances of str and float'')"
proof -
  let ?intent = "[(''intent'', JStr ''planner''), (''confidence'', JStr ''0.9'')]"
  let ?env = "\<lparr> meta_from = Some ''router'', meta_to = Some ''planner'',
                meta_trace_id = Some (fst (uuid4 w)),
                payload_user_id = Some user_id,
                payload_session_id = Some session_id,
                payload_text = Some msg,
                payload_intent = Some ?intent \<rparr>"
  have cl: "classify msg = ?intent"
    by (rule classify_planner_confidence [OF assms(1)])
  have "\<exists>w'. handle pf records ?env (snd (uuid4 w))
                = (Inl (TypeError ''>= not supported between instances of str and float''), w')
             \<and> kv w' = kv (snd (uuid4 w))"
    by (rule handle_string_confidence [where t = msg and s = "''0.9''"])
       (simp_all add: assms dict_get_def)
  then obtain w' where "handle pf records ?env (snd (uuid4 w))
                = (Inl (TypeError ''>= not supported between instances of str and float''), w')"
    by blast
  then show ?thesis
    by (simp add: route_def cl Let_def split_beta dict_get_def)
qed

lemma plan_my_week_is_planner:
  "classify ''plan my week'' = [(''intent'', JStr ''planner''), (''confidence'', JStr ''0.9'')]"
  by (simp add: classify_def Let_def planner_cues_def py_lower_def lower_char_def)

lemma plan_my_week_not_blank: "py_strip ''plan my week'' = ''plan my week''"
  by (simp add: py_strip_def is_space_def whitespace_def)

text \<open>
  C4, on the code. Routing the text "plan my week" for a user without a checkpoint
  raises TypeError to the caller of \<open>route\<close>, whatever the other two handlers are.
\<close>

theorem route_plan_my_week_raises:
  "fst (route plain_platform [] general bestfriend ''u1'' ''s1'' ''plan my week'' fresh_world)
     = Inl (TypeError ''>= not supported between instances of str and float'')"
  by (rule route_planner_raises)
     (simp_all add: plan_my_week_is_planner plan_my_week_not_blank dict_get_def fresh_world_def)

text \<open>
  C1, on the code. The envelope that the router builds for "plan my week" holds the
  classifier's prediction; for a user without a checkpoint \<open>handle\<close> raises TypeError
  instead of returning a completed plan, and stores no checkpoint.
\<close>

theorem handle_router_envelope_raises:
  "fst (handle plain_platform []
          \<lparr> meta_from = Some ''router'', meta_to = Some ''planner'', meta_trace_id = Some ''t1'',
            payload_user_id = Some ''u1'', payload_session_id = Some ''s1'',
            payload_text = Some ''plan my week'',
            payload_intent = Some (classify ''plan my week'') \<rparr> fresh_world)
     = Inl (TypeError ''>= not supported between instances of str and float'')
   \<and> kv (snd (handle plain_platform []
          \<lparr> meta_from = Some ''router'', meta_to = Some ''planner'', meta_trace_id = Some ''t1'',
            payload_user_id = Some ''u1'', payload_session_id = Some ''s1'',
            payload_text = Some ''plan my week'',
            payload_intent = Some (classify ''plan my week'') \<rparr> fresh_world))
       (''planner_runs'', ''u1'') = None"
proof -
  let ?env = "\<lparr> meta_from = Some ''router'', meta_to = Some ''planner'', meta_trace_id = Some ''t1'',
            payload_user_id = Some ''u1'', payload_session_id = Some ''s1'',
            payload_text = Some ''plan my week'',
            payload_intent = Some (classify ''plan my week'') \<rparr>"
  have "\<exists>w'. handle plain_platform [] ?env fresh_world
                = (Inl (TypeError ''>= not supported between instances of str and float''), w')
             \<and> kv w' = kv fresh_world"
    by (rule handle_string_confidence [where t = "''plan my week''" and s = "''0.9''"])
       (simp_all add: plan_my_week_is_planner plan_my_week_not_blank dict_get_def fresh_world_def)
  then show ?thesis
    by (auto simp: fresh_world_def)
qed


section \<open>Properties of the retrieval store\<close>

text \<open>
  C8. The eviction keeps, in their order, exactly the chunks whose age
  \<open>now - updated_at\<close> is at most \<open>max_age_days\<close> days, returns the number of the others,
  and writes the store (once, with the kept records) only when that number is not zero.
\<close>

theorem apply_freshness_policy_spec:
  "kb_records (snd (apply_freshness_policy now max_age_days kb))
     = filter (\<lambda>c. \<not> real_of_int max_age_days * 86400 < now - updated_at c) (kb_records kb)
   \<and> fst (apply_freshness_policy now max_age_days kb)
     = length (filter (\<lambda>c. real_of_int max_age_days * 86400 < now - updated_at c) (kb_records kb))
   \<and> kb_written (snd (apply_freshness_policy now max_age_days kb))
     = (if fst (apply_freshness_policy now max_age_days kb) = 0 then kb_written kb
        else kb_records (snd (apply_freshness_policy now max_age_days kb)) # kb_written kb)"
proof -
  let ?old = "\<lambda>c. real_of_int max_age_days * 86400 < now - updated_at c"
  let ?keep = "\<lambda>c. now - real_of_int (max_age_days * 86400) \<le> updated_at c"
  have keep: "?keep = (\<lambda>c. \<not> ?old c)"
    by (auto simp: fun_eq_iff)
  have len: "length (kb_records kb) - length (filter (\<lambda>c. \<not> ?old c) (kb_records kb))
               = length (filter ?old (kb_records kb))"
    using sum_length_filter_compl [of ?old "kb_records kb"] by simp
  show ?thesis
    unfolding apply_freshness_policy_def Let_def keep
    by (simp add: save_def len)
qed

lemma sort_reverse_mset: "mset (sort_reverse key xs) = mset xs"
  by (simp add: sort_reverse_def)

lemma sort_reverse_descending: "sorted_wrt (\<lambda>a b. key b \<le> key a) (sort_reverse key xs)"
proof -
  have "sorted (map key (sort_key key (rev xs)))"
    by (rule sorted_sort_key)
  then have "sorted_wrt (\<lambda>a b. key a \<le> key b) (sort_key key (rev xs))"
    by (simp add: sorted_map)
  then show ?thesis
    by (simp add: sort_reverse_def sorted_wrt_rev)
qed

lemma sort_reverse_stable:
  "filter (\<lambda>x. key x = k) (sort_reverse key xs) = filter (\<lambda>x. key x = k) xs"
proof -
  have "filter (\<lambda>x. key x = k) (sort_reverse key xs)
          = rev (filter (\<lambda>x. key x = k) (sort_key key (rev xs)))"
    by (simp add: sort_reverse_def rev_filter)
  also have "\<dots> = rev (filter (\<lambda>x. key x = k) (rev xs))"
    by (simp add: sort_key_stable)
  also have "\<dots> = filter (\<lambda>x. key x = k) xs"
    by (simp add: rev_filter)
  finally show ?thesis .
qed

lemma squares_of_zeros:
  assumes "rnd env 0 = 0" and "\<forall>x \<in> set xs. x = 0"
  shows "map (\<lambda>x. rnd env (x * x)) xs = replicate (length xs) 0"
  using assms(2) by (induction xs) (simp_all add: assms(1))

lemma cosine_claim:
  assumes "zero_exact env" and "cosine_defined env a b"
  shows "cosine env a b = Inr (claim_cosine env a b)"
proof -
  from assms(1) have z: "rnd env 0 = 0" and s: "\<And>n. fsum env (replicate n 0) = 0"
    by (simp_all add: zero_exact_def)
  from assms(2) have len: "length a = length b"
    by (simp add: cosine_defined_def)
  show ?thesis
  proof (cases "numpy_available env")
    case True
    show ?thesis
    proof (cases "(\<forall>x \<in> set a. x = 0) \<or> (\<forall>x \<in> set b. x = 0)")
      case zero: True
      with True show ?thesis
        by (auto simp: cosine_def claim_cosine_def list_ex_iff)
    next
      case nonzero: False
      have "rnd env (np_norm env a * np_norm env b) = 0"
        if "np_norm env a = 0 \<or> np_norm env b = 0"
        using that z by auto
      with True nonzero len show ?thesis
        by (auto simp: cosine_def claim_cosine_def vec_norm_def vec_dot_def list_ex_iff Let_def)
    qed
  next
    case False
    have norm0: "rnd env (sqrt (fsum env (map (\<lambda>x. rnd env (x * x)) xs))) = 0"
      if "\<forall>x \<in> set xs. x = 0" for xs
      using squares_of_zeros [OF z that] by (simp add: s z)
    from False assms(2) have prod: "vec_norm env a = 0 \<or> vec_norm env b = 0
        \<or> rnd env (vec_norm env a * vec_norm env b) \<noteq> 0"
      by (simp add: cosine_defined_def)
    show ?thesis
    proof (cases "(\<forall>x \<in> set a. x = 0) \<or> (\<forall>x \<in> set b. x = 0)")
      case zero: True
      then have "vec_norm env a = 0 \<or> vec_norm env b = 0"
        using norm0 False by (auto simp: vec_norm_def)
      with False zero len show ?thesis
        by (auto simp: cosine_def claim_cosine_def vec_norm_def Let_def)
    next
      case nonzero: False
      then have "a \<noteq> []" and "b \<noteq> []" by auto
      with False nonzero len prod show ?thesis
        by (auto simp: cosine_def claim_cosine_def vec_norm_def vec_dot_def Let_def)
    qed
  qed
qed

lemma freshness_claim:
  "window \<noteq> 0 \<Longrightarrow> freshness env now window c = Inr (claim_freshness env now window c)"
  by (simp add: freshness_def claim_freshness_def Let_def)

lemma claim_freshness_floor: "rnd env (2 / 10) \<le> claim_freshness env now window c"
  unfolding claim_freshness_def by (rule max.cobounded1)

lemma keyword_overlap_claim: "keyword_overlap env q d = claim_keyword_overlap env q d"
proof -
  have eq: "(if sum_list (map snd q) = 0 then 1 else sum_list (map snd q))
              = max 1 (sum_list (map snd q))"
    by (cases "sum_list (map snd q)") simp_all
  show ?thesis
    unfolding keyword_overlap_def claim_keyword_overlap_def Let_def eq by (rule refl)
qed

lemma chunk_score_claim:
  assumes "window \<noteq> 0" and "zero_exact env" and "cosine_defined env query_emb (embedding c)"
  shows "chunk_score env query_emb query_keywords now window c
           = Inr (claim_score env (claim_cosine env query_emb (embedding c))
                    (claim_keyword_overlap env query_keywords (keyword_counts c))
                    (claim_freshness env now window c))"
  by (simp add: chunk_score_def cosine_claim [OF assms(2,3)] freshness_claim [OF assms(1)]
      keyword_overlap_claim claim_score_def Let_def)

lemma score_records_claim:
  assumes "window \<noteq> 0" and "zero_exact env"
      and "\<forall>c \<in> set cs. cosine_defined env query_emb (embedding c)"
  shows "score_records env query_emb query_keywords now window cs
           = Inr (map (\<lambda>c. (claim_score env (claim_cosine env query_emb (embedding c))
                               (claim_keyword_overlap env query_keywords (keyword_counts c))
                               (claim_freshness env now window c), c)) cs)"
  using assms(3)
proof (induction cs)
  case Nil
  show ?case by simp
next
  case (Cons c cs)
  then show ?case
    by (simp add: chunk_score_claim [OF assms(1,2)])
qed

lemma hit_of_fields:
  "hit_of = (\<lambda>(s, c). \<lparr> hit_score = s, hit_content = content c,
                         hit_citation = title c @ '' ('' @ source c @ '') '' @ bullet
                                          @ '' chunk '' @ chunk_id c,
                         hit_source = source c, hit_doc_title = title c,
                         hit_updated_at = updated_at c \<rparr>)"
  by (auto simp: hit_of_def citation_def fun_eq_iff)

text \<open>
  C2, as the code has it. Take a non-blank query, a freshness window that is not zero, a
  platform on which rounding zero and summing zeros give zero, and chunks whose
  embeddings have the length of the query's embedding (and, without numpy, norms whose
  product with the query's norm is not rounded to zero). Then \<open>search\<close> returns the hits
  (score, content, citation, source, title and date of the chunk) of the slice
  \<open>[:top_k]\<close>, which for a count \<open>top_k\<close> that is not negative is the first \<open>top_k\<close>
  entries, of a ranking of all chunks: each chunk with its score, in descending order of
  score, chunks of equal score in their insertion order. The score is the double
  0.6 * cosine + 0.3 * keyword overlap + 0.1 * freshness, summed from the left, with the
  cosine (0 for an all-zero vector), the keyword overlap and the freshness as the claim
  words them; the freshness is at least the double 0.2.
\<close>

theorem search_ranking:
  assumes "py_strip query \<noteq> []" and "window \<noteq> 0" and "zero_exact env"
      and "\<forall>c \<in> set (kb_records kb). cosine_defined env (encode env query) (embedding c)"
  shows "\<exists>ranked.
           search env kb now query top_k window
             = Inr (map (\<lambda>(s, c). \<lparr> hit_score = s, hit_content = content c,
                                     hit_citation = title c @ '' ('' @ source c @ '') '' @ bullet
                                                      @ '' chunk '' @ chunk_id c,
                                     hit_source = source c, hit_doc_title = title c,
                                     hit_updated_at = updated_at c \<rparr>)
                        (slice_to top_k ranked))
         \<and> (0 \<le> top_k \<longrightarrow> slice_to top_k ranked = take (nat top_k) ranked)
         \<and> mset ranked
             = mset (map (\<lambda>c. (claim_score env
                                  (claim_cosine env (encode env query) (embedding c))
                                  (claim_keyword_overlap env (keywords_of query) (keyword_counts c))
                                  (claim_freshness env now window c), c))
                         (kb_records kb))
         \<and> sorted_wrt (\<lambda>a b. fst b \<le> fst a) ranked
         \<and> (\<forall>s. filter (\<lambda>p. fst p = s) ranked
                  = filter (\<lambda>p. fst p = s)
                      (map (\<lambda>c. (claim_score env
                                     (claim_cosine env (encode env query) (embedding c))
                                     (claim_keyword_overlap env (keywords_of query) (keyword_counts c))
                                     (claim_freshness env now window c), c))
                           (kb_records kb)))
         \<and> (\<forall>c \<in> set (kb_records kb).
                rnd env (2 / 10) \<le> claim_freshness env now window c
              \<and> ((\<forall>x \<in> set (encode env query). x = 0) \<or> (\<forall>x \<in> set (embedding c). x = 0)
                 \<longrightarrow> claim_cosine env (encode env query) (embedding c) = 0))"
proof -
  let ?scored = "map (\<lambda>c. (claim_score env
                                  (claim_cosine env (encode env query) (embedding c))
                                  (claim_keyword_overlap env (keywords_of query) (keyword_counts c))
                                  (claim_freshness env now window c), c))
                     (kb_records kb)"
  let ?ranked = "sort_reverse fst ?scored"
  have sr: "score_records env (encode env query) (keywords_of query) now window (kb_records kb)
              = Inr ?scored"
    by (rule score_records_claim [OF assms(2,3,4)])
  have "search env kb now query top_k window = Inr (map hit_of (slice_to top_k ?ranked))"
    using assms(1) by (simp add: search_def Let_def sr)
  then have res: "search env kb now query top_k window
             = Inr (map (\<lambda>(s, c). \<lparr> hit_score = s, hit_content = content c,
                                     hit_citation = title c @ '' ('' @ source c @ '') '' @ bullet
                                                      @ '' chunk '' @ chunk_id c,
                                     hit_source = source c, hit_doc_title = title c,
                                     hit_updated_at = updated_at c \<rparr>)
                        (slice_to top_k ?ranked))"
    by (simp only: hit_of_fields)
  have sl: "0 \<le> top_k \<longrightarrow> slice_to top_k ?ranked = take (nat top_k) ?ranked"
    by (simp add: slice_to_def)
  have ms: "mset ?ranked = mset ?scored"
    by (rule sort_reverse_mset)
  have so: "sorted_wrt (\<lambda>a b. fst b \<le> fst a) ?ranked"
    by (rule sort_reverse_descending)
  have st: "\<forall>s. filter (\<lambda>p. fst p = s) ?ranked = filter (\<lambda>p. fst p = s) ?scored"
    by (simp add: sort_reverse_stable)
  have per: "\<forall>c \<in> set (kb_records kb).
                rnd env (2 / 10) \<le> claim_freshness env now window c
              \<and> ((\<forall>x \<in> set (encode env query). x = 0) \<or> (\<forall>x \<in> set (embedding c). x = 0)
                 \<longrightarrow> claim_cosine env (encode env query) (embedding c) = 0)"
  proof (intro ballI conjI impI)
    fix c
    show "rnd env (2 / 10) \<le> claim_freshness env now window c"
      by (rule claim_freshness_floor)
    assume "(\<forall>x \<in> set (encode env query). x = 0) \<or> (\<forall>x \<in> set (embedding c). x = 0)"
    then show "claim_cosine env (encode env query) (embedding c) = 0"
      by (simp add: claim_cosine_def)
  qed
  from res sl ms so st per show ?thesis
    by (intro exI [of _ ?ranked] conjI) blast+
qed

lemma sample_query_keywords:
  "keywords_of ''weekly AI roadmap'' = [(''weekly'', Suc 0), (''roadmap'', Suc 0)]"
  by (simp add: keywords_of_def Let_def py_lower_def lower_char_def alnum_chars_def
      STOPWORDS_def Counter_def)

lemma sample_query_not_blank: "py_strip ''weekly AI roadmap'' \<noteq> []"
  by (simp add: py_strip_def is_space_def whitespace_def)

lemma sample_zero_exact: "zero_exact sample_env"
  by (simp add: zero_exact_def sample_env_def sum_list_replicate)

lemma sample_score_roadmap:
  "claim_score sample_env (claim_cosine sample_env [1, 0] (embedding chunk_roadmap))
     (claim_keyword_overlap sample_env [(''weekly'', Suc 0), (''roadmap'', Suc 0)]
        (keyword_counts chunk_roadmap))
     (claim_freshness sample_env 0 45 chunk_roadmap) = 1"
  by (simp add: claim_score_def claim_cosine_def vec_norm_def vec_dot_def
      claim_keyword_overlap_def claim_freshness_def sample_env_def chunk_roadmap_def
      counter_get_def)

lemma sample_score_garden:
  "claim_score sample_env (claim_cosine sample_env [1, 0] (embedding chunk_garden))
     (claim_keyword_overlap sample_env [(''weekly'', Suc 0), (''roadmap'', Suc 0)]
        (keyword_counts chunk_garden))
     (claim_freshness sample_env 0 45 chunk_garden) = 1 / 10"
  by (simp add: claim_score_def claim_cosine_def vec_norm_def vec_dot_def
      claim_keyword_overlap_def claim_freshness_def sample_env_def chunk_garden_def
      counter_get_def)

lemma sample_cosine_defined:
  "\<forall>c \<in> set (kb_records sample_kb).
     cosine_defined sample_env (encode sample_env ''weekly AI roadmap'') (embedding c)"
  by (simp add: cosine_defined_def vec_norm_def sample_kb_def sample_env_def chunk_garden_def
      chunk_roadmap_def)

lemma sample_scored:
  "map (\<lambda>c. (claim_score sample_env
                (claim_cosine sample_env (encode sample_env ''weekly AI roadmap'') (embedding c))
                (claim_keyword_overlap sample_env (keywords_of ''weekly AI roadmap'')
                   (keyword_counts c))
                (claim_freshness sample_env 0 45 c), c))
       (kb_records sample_kb)
     = [(1 / 10, chunk_garden), (1, chunk_roadmap)]"
proof -
  have e: "encode sample_env ''weekly AI roadmap'' = [1, 0]"
    and k: "kb_records sample_kb = [chunk_garden, chunk_roadmap]"
    by (simp_all add: sample_env_def sample_kb_def)
  show ?thesis
    unfolding e k sample_query_keywords
    by (simp add: sample_score_roadmap sample_score_garden)
qed

lemma search_unfold:
  assumes "py_strip query \<noteq> []"
      and "score_records env (encode env query) (keywords_of query) now window (kb_records kb)
             = Inr scored"
  shows "search env kb now query top_k window
           = Inr (map hit_of (slice_to top_k (sort_reverse fst scored)))"
  using assms by (simp add: search_def Let_def)

lemma sample_search:
  "search sample_env sample_kb 0 ''weekly AI roadmap'' 1 45
     = Inr [\<lparr> hit_score = 1, hit_content = ''weekly AI roadmap'',
              hit_citation = ''A (docs/a.md) '' @ bullet @ '' chunk 1'',
              hit_source = ''docs/a.md'', hit_doc_title = ''A'', hit_updated_at = 0 \<rparr>]"
proof -
  have win: "(45 :: int) \<noteq> 0" by simp
  have "score_records sample_env (encode sample_env ''weekly AI roadmap'')
          (keywords_of ''weekly AI roadmap'') 0 45 (kb_records sample_kb)
        = Inr [(1 / 10, chunk_garden), (1, chunk_roadmap)]"
    using score_records_claim [OF win sample_zero_exact sample_cosine_defined,
        of "keywords_of ''weekly AI roadmap''" 0]
    by (simp only: sample_scored)
  then have "search sample_env sample_kb 0 ''weekly AI roadmap'' 1 45
          = Inr (map hit_of (slice_to 1 (sort_reverse fst [(1 / 10, chunk_garden), (1, chunk_roadmap)])))"
    by (rule search_unfold [OF sample_query_not_blank])
  also have "sort_reverse fst [(1 / 10 :: real, chunk_garden), (1, chunk_roadmap)]
               = [(1, chunk_roadmap), (1 / 10, chunk_garden)]"
    by (simp add: sort_reverse_def)
  finally show ?thesis
    by (simp add: slice_to_def hit_of_def citation_def chunk_roadmap_def)
qed

theorem search_ranking_witness:
  "search sample_env sample_kb 0 ''weekly AI roadmap'' 1 45
     = Inr [\<lparr> hit_score = 1, hit_content = ''weekly AI roadmap'',
              hit_citation = ''A (docs/a.md) '' @ bullet @ '' chunk 1'',
              hit_source = ''docs/a.md'', hit_doc_title = ''A'', hit_updated_at = 0 \<rparr>]
   \<and> (\<exists>ranked.
         search sample_env sample_kb 0 ''weekly AI roadmap'' 1 45
           = Inr (map (\<lambda>(s, c). \<lparr> hit_score = s, hit_content = content c,
                                   hit_citation = title c @ '' ('' @ source c @ '') '' @ bullet
                                                    @ '' chunk '' @ chunk_id c,
                                   hit_source = source c, hit_doc_title = title c,
                                   hit_updated_at = updated_at c \<rparr>)
                      (take (nat 1) ranked))
       \<and> mset ranked = mset [(1 / 10, chunk_garden), (1, chunk_roadmap)]
       \<and> sorted_wrt (\<lambda>a b. fst b \<le> fst a) ranked)"
proof -
  have win: "(45 :: int) \<noteq> 0" by simp
  from search_ranking [OF sample_query_not_blank win sample_zero_exact sample_cosine_defined,
      of 0 1]
  obtain ranked where
    r: "search sample_env sample_kb 0 ''weekly AI roadmap'' 1 45
           = Inr (map (\<lambda>(s, c). \<lparr> hit_score = s, hit_content = content c,
                                   hit_citation = title c @ '' ('' @ source c @ '') '' @ bullet
                                                    @ '' chunk '' @ chunk_id c,
                                   hit_source = source c, hit_doc_title = title c,
                                   hit_updated_at = updated_at c \<rparr>)
                      (slice_to 1 ranked))"
       "0 \<le> (1 :: int) \<longrightarrow> slice_to 1 ranked = take (nat 1) ranked"
       "mset ranked
          = mset (map (\<lambda>c. (claim_score sample_env
                (claim_cosine sample_env (encode sample_env ''weekly AI roadmap'') (embedding c))
                (claim_keyword_overlap sample_env (keywords_of ''weekly AI roadmap'')
                   (keyword_counts c))
                (claim_freshness sample_env 0 45 c), c))
                      (kb_records sample_kb))"
       "sorted_wrt (\<lambda>a b. fst b \<le> fst a) ranked"
    by blast
  from r(3) have m: "mset ranked = mset [(1 / 10, chunk_garden), (1, chunk_roadmap)]"
    by (simp only: sample_scored)
  from r(2) have "slice_to 1 ranked = take (nat 1) ranked"
    by simp
  with r(1) have "search sample_env sample_kb 0 ''weekly AI roadmap'' 1 45
           = Inr (map (\<lambda>(s, c). \<lparr> hit_score = s, hit_content = content c,
                                   hit_citation = title c @ '' ('' @ source c @ '') '' @ bullet
                                                    @ '' chunk '' @ chunk_id c,
                                   hit_source = source c, hit_doc_title = title c,
                                   hit_updated_at = updated_at c \<rparr>)
                      (take (nat 1) ranked))"
    by simp
  with m r(4) sample_search show ?thesis by blast
qed

text \<open>
  The claim as stated fails: it speaks of every chunk set and every non-blank query, and
  with a freshness window of zero days the division in the loop raises on the first
  record, so that \<open>search\<close> returns nothing.
\<close>

theorem search_zero_window_raises:
  "py_strip ''weekly AI roadmap'' \<noteq> []
   \<and> search sample_env sample_kb 0 ''weekly AI roadmap'' 1 0
       = Inl (ZeroDivisionError ''float division by zero'')"
  using sample_query_not_blank
  by (simp add: search_def Let_def sample_env_def sample_kb_def chunk_score_def cosine_def
      freshness_def chunk_garden_def)

text \<open>
  With numpy, a chunk whose embedding has another length than the query's makes the
  product of the two vectors raise.
\<close>

lemma search_length_mismatch_raises:
  "search sample_env_numpy sample_kb_long 0 ''weekly AI roadmap'' 1 45
     = Inl (ValueError ''shapes not aligned'')"
  using sample_query_not_blank
  by (simp add: search_def Let_def sample_env_numpy_def sample_env_def sample_kb_long_def
      chunk_score_def cosine_def chunk_long_def)


end
